theory Spec2Isabelle
  imports Main
begin

section \<open>Vital statistics export (VSExportGenerator.ts)\<close>

text \<open>
  A shallow embedding of \<^verbatim>\<open>packages/metrics/src/scripts/VSExportGenerator.ts\<close>.
  Documents of the store are records whose optional properties are \<open>option\<close> fields;
  \<open>undefined\<close> and \<open>null\<close> are both \<open>None\<close>. A field \<open>f\<close> of the source type
  \<open>T\<close> is named with a short prefix for \<open>T\<close> (record fields are global constants, and the
  source reuses names such as \<open>healthCenter\<close> in several types). A \<open>TypeError\<close> of the
  JavaScript run time (reading a property of \<open>undefined\<close>) is the value \<open>Inl TypeError\<close>.
\<close>

subsection \<open>JavaScript primitives used by the script\<close>

datatype error = TypeError

text \<open>\<^verbatim>\<open>xs[0].p\<close>: element 0 of an empty array is \<open>undefined\<close>, and reading \<open>p\<close> of it throws.\<close>

definition elem0 :: "'a list \<Rightarrow> error + 'a" where
  "elem0 xs = (case xs of [] \<Rightarrow> Inl TypeError | x # _ \<Rightarrow> Inr x)"

text \<open>\<^verbatim>\<open>xs?.[0].p\<close>: \<open>undefined\<close> when \<open>xs\<close> is, otherwise as \<open>xs[0].p\<close>.\<close>

definition optElem0 :: "'a list option \<Rightarrow> error + 'a option" where
  "optElem0 xs = (case xs of None \<Rightarrow> Inr None
     | Some ys \<Rightarrow> (case elem0 ys of Inl e \<Rightarrow> Inl e | Inr y \<Rightarrow> Inr (Some y)))"

text \<open>\<^verbatim>\<open>x ?? d\<close>\<close>

definition orElse :: "'a option \<Rightarrow> 'a \<Rightarrow> 'a" where
  "orElse x d = (case x of None \<Rightarrow> d | Some v \<Rightarrow> v)"

text \<open>\<^verbatim>\<open>String(x)\<close> of a string or \<open>undefined\<close>.\<close>

definition String :: "string option \<Rightarrow> string" where
  "String x = (case x of None \<Rightarrow> ''undefined'' | Some s \<Rightarrow> s)"

text \<open>Truthiness of a string or \<open>undefined\<close>: the empty string is falsy.\<close>

definition truthy :: "string option \<Rightarrow> bool" where
  "truthy x = (case x of None \<Rightarrow> False | Some s \<Rightarrow> s \<noteq> [])"

definition startsWith :: "string \<Rightarrow> string \<Rightarrow> bool" where
  "startsWith s p = (take (length p) s = p)"

text \<open>\<^verbatim>\<open>s.replace(pat, rep)\<close> with a string pattern: the first occurrence only.\<close>

fun replace :: "string \<Rightarrow> string \<Rightarrow> string \<Rightarrow> string" where
  "replace [] pat rep = (if pat = [] then rep else [])"
| "replace (c # cs) pat rep =
     (if startsWith (c # cs) pat then rep @ drop (length pat) (c # cs)
      else c # replace cs pat rep)"

subsection \<open>The CSV sink (csv-writer, object writer in append mode)\<close>

text \<open>
  A record handed to the writer is a JavaScript object: its keys in insertion order with
  their values. The writer emits, for each record, the values under its header keys in
  header order; a key the record lacks gives \<open>None\<close> (\<open>undefined\<close>). In append mode
  the writer never emits a header line of its own.
\<close>

datatype cell = Str string | Num int

type_synonym object = "(string \<times> cell) list"
type_synonym line = "cell option list"

record CsvWriter =
  cw_header :: "string list"
  cw_lines :: "line list"

definition writeRecords :: "CsvWriter \<Rightarrow> object list \<Rightarrow> CsvWriter" where
  "writeRecords w records =
     w\<lparr>cw_lines := cw_lines w @ map (\<lambda>r. map (map_of r) (cw_header w)) records\<rparr>"

definition birthColumns :: "string list" where
  "birthColumns =
    [''childGen'', ''childDOB'', ''childOrd'', ''birthCity'', ''birthState'',
     ''birthDistrict'', ''healthCenter'', ''officeLocation'',
     ''birthPluralityOfPregnancy'', ''bodyWeightMeasured'', ''birthAttendantTitle'',
     ''presentAtBirthReg'', ''motherDOB'', ''motherMaritalStatus'', ''motherOccupation'',
     ''motherEducationalAttainment'', ''motherCity'', ''motherDistrict'', ''motherState'',
     ''fatherDOB'', ''fatherMaritalStatus'', ''fatherOccupation'',
     ''fatherEducationalAttainment'', ''fatherCity'', ''fatherDistrict'', ''fatherState'',
     ''informantDOB'', ''informantMaritalStatus'', ''informantOccupation'',
     ''informantEducationalAttainment'', ''informantCity'', ''informantDistrict'',
     ''informantState'', ''informantRelationship'']"

definition birthCSVHeader :: "object" where
  "birthCSVHeader =
    [(''childGen'', Str ''CHILD GENDER''),
     (''childDOB'', Str ''CHILD DOB''),
     (''childOrd'', Str ''CHILD ORDER''),
     (''birthCity'', Str ''BIRTH CITY''),
     (''birthState'', Str ''BIRTH STATE''),
     (''birthDistrict'', Str ''BIRTH DISTRICT''),
     (''healthCenter'', Str ''HEALTH CENTER''),
     (''officeLocation'', Str ''OFFICE LOCATION''),
     (''birthPluralityOfPregnancy'', Str ''PLURALITY OF PREGNANCY''),
     (''bodyWeightMeasured'', Str ''BODY WEIGHT MEASURED''),
     (''birthAttendantTitle'', Str ''ATTENDANT TITLE''),
     (''presentAtBirthReg'', Str ''PRESENT AT REG''),
     (''motherDOB'', Str ''MOTHER DOB''),
     (''motherMaritalStatus'', Str ''MOTHER MARITAL STATUS''),
     (''motherOccupation'', Str ''MOTHER OCCUPATION''),
     (''motherEducationalAttainment'', Str ''MOTHER EDUCATION''),
     (''motherCity'', Str ''MOTHER CITY''),
     (''motherDistrict'', Str ''MOTHER DISTRICT''),
     (''motherState'', Str ''MOTHER STATE''),
     (''fatherDOB'', Str ''FATHER DOB''),
     (''fatherMaritalStatus'', Str ''FATHER MARITAL STATUS''),
     (''fatherOccupation'', Str ''FATHER OCCUPATION''),
     (''fatherEducationalAttainment'', Str ''FATHER EDUCATION''),
     (''fatherCity'', Str ''FATHER CITY''),
     (''fatherDistrict'', Str ''FATHER DISTRICT''),
     (''fatherState'', Str ''FATHER STATE''),
     (''informantDOB'', Str ''INFORMANT DOB''),
     (''informantMaritalStatus'', Str ''INFORMANT MARITAL STATUS''),
     (''informantOccupation'', Str ''INFORMANT OCCUPATION''),
     (''informantEducationalAttainment'', Str ''INFORMANT EDUCATION''),
     (''informantCity'', Str ''INFORMANT CITY''),
     (''informantDistrict'', Str ''INFORMANT DISTRICT''),
     (''informantState'', Str ''INFORMANT STATE''),
     (''informantRelationship'', Str ''INFORMANT RELATIONSHIP'')]"

definition deathColumns :: "string list" where
  "deathColumns =
    [''deceasedGen'', ''deceasedDOB'', ''deceasedMaritalStatus'', ''deceasedDate'',
     ''deathCity'', ''deathState'', ''deathDistrict'', ''healthCenter'',
     ''officeLocation'', ''uncertifiedMannerOfDeath'', ''verbalAutopsyDescription'',
     ''causeOfDeathMethod'', ''causeOfDeathEstablished'', ''causeOfDeath'',
     ''numMaleDependentsOnDeceased'', ''numFemaleDependentsOnDeceased'',
     ''informantDOB'', ''informantMaritalStatus'', ''informantOccupation'',
     ''informantCity'', ''informantDistrict'', ''informantState'',
     ''informantRelationship'']"

definition deathCSVHeader :: "object" where
  "deathCSVHeader =
    [(''deceasedGen'', Str ''DECEASED GENDER''),
     (''deceasedDOB'', Str ''DECEASED DOB''),
     (''deceasedMaritalStatus'', Str ''DECEASED MARITAL STATUS''),
     (''deceasedDate'', Str ''DECEASED DATE''),
     (''deathCity'', Str ''DEATH CITY''),
     (''deathState'', Str ''DEATH STATE''),
     (''deathDistrict'', Str ''DEATH DISTRICT''),
     (''healthCenter'', Str ''HEALTH CENTER''),
     (''officeLocation'', Str ''OFFICE LOCATION''),
     (''uncertifiedMannerOfDeath'', Str ''UNCERTIFIED MANNER OF DEATH''),
     (''verbalAutopsyDescription'', Str ''VERBAL AUTOPSY DESCRIPTION''),
     (''causeOfDeathMethod'', Str ''CAUSE OF DEATH METHOD''),
     (''causeOfDeathEstablished'', Str ''CAUSE OF DEATH ESTABLISHED''),
     (''causeOfDeath'', Str ''CAUSE OF DEATH''),
     (''numMaleDependentsOnDeceased'', Str ''NUM MALE DEPENDENTS ON DECEASED''),
     (''numFemaleDependentsOnDeceased'', Str ''NUM FEMALE DEPENDENTS ON DECEASED''),
     (''informantDOB'', Str ''INFORMANT DOB''),
     (''informantMaritalStatus'', Str ''INFORMANT MARITAL STATUS''),
     (''informantOccupation'', Str ''INFORMANT OCCUPATION''),
     (''informantCity'', Str ''INFORMANT CITY''),
     (''informantDistrict'', Str ''INFORMANT DISTRICT''),
     (''informantState'', Str ''INFORMANT STATE''),
     (''informantRelationship'', Str ''INFORMANT RELATIONSHIP'')]"

text \<open>
  \<^verbatim>\<open>createBirthDeclarationCSVWriter\<close> and \<^verbatim>\<open>createDeathDeclarationCSVWriter\<close>: the
  file is opened for appending (the argument is what it already holds) and the header
  object is written as an ordinary record.
\<close>

definition createBirthDeclarationCSVWriter :: "line list \<Rightarrow> CsvWriter" where
  "createBirthDeclarationCSVWriter existing =
     writeRecords \<lparr>cw_header = birthColumns, cw_lines = existing\<rparr> [birthCSVHeader]"

definition createDeathDeclarationCSVWriter :: "line list \<Rightarrow> CsvWriter" where
  "createDeathDeclarationCSVWriter existing =
     writeRecords \<lparr>cw_header = deathColumns, cw_lines = existing\<rparr> [deathCSVHeader]"

text \<open>What "upper-case descriptive label" means for a header cell.\<close>

definition upperLabel :: "cell option \<Rightarrow> bool" where
  "upperLabel c = (case c of Some (Str s) \<Rightarrow>
      s \<noteq> [] \<and> list_all (\<lambda>ch. ch = CHR '' '' \<or> ch \<in> set ''ABCDEFGHIJKLMNOPQRSTUVWXYZ'') s
    | _ \<Rightarrow> False)"

definition headerLine :: "CsvWriter \<Rightarrow> line" where
  "headerLine w = last (cw_lines w)"

subsection \<open>Failure propagation and array methods with a callback that may throw\<close>

definition bindE :: "error + 'a \<Rightarrow> ('a \<Rightarrow> error + 'b) \<Rightarrow> error + 'b" where
  "bindE m f = (case m of Inl e \<Rightarrow> Inl e | Inr x \<Rightarrow> f x)"

fun findE :: "('a \<Rightarrow> error + bool) \<Rightarrow> 'a list \<Rightarrow> error + 'a option" where
  "findE p [] = Inr None"
| "findE p (x # xs) = bindE (p x) (\<lambda>b. if b then Inr (Some x) else findE p xs)"

fun filterE :: "('a \<Rightarrow> error + bool) \<Rightarrow> 'a list \<Rightarrow> error + 'a list" where
  "filterE p [] = Inr []"
| "filterE p (x # xs) =
     bindE (p x) (\<lambda>b. bindE (filterE p xs) (\<lambda>ys. Inr (if b then x # ys else ys)))"

fun mapE :: "('a \<Rightarrow> error + 'b) \<Rightarrow> 'a list \<Rightarrow> error + 'b list" where
  "mapE f [] = Inr []"
| "mapE f (x # xs) = bindE (f x) (\<lambda>y. bindE (mapE f xs) (\<lambda>ys. Inr (y # ys)))"

text \<open>\<^verbatim>\<open>xs.forEach(x => ...)\<close> whose body updates an object \<open>s\<close> captured from outside.\<close>

fun forEachE :: "('s \<Rightarrow> 'a \<Rightarrow> error + 's) \<Rightarrow> 's \<Rightarrow> 'a list \<Rightarrow> error + 's" where
  "forEachE f s [] = Inr s"
| "forEachE f s (x # xs) = bindE (f s x) (\<lambda>s'. forEachE f s' xs)"

subsection \<open>Documents of the store\<close>

record Coding =
  coding_code :: "string option"

record CodeableConcept =
  cc_coding :: "Coding list option"
  cc_text :: "string option"

record Reference =
  ref_reference :: "string option"

record Extension =
  ext_url :: "string option"
  ext_valueString :: "string option"
  ext_valueReference :: "Reference option"

record Address =
  addr_city :: "string option"
  addr_district :: "string option"
  addr_state :: "string option"

text \<open>
  The numeric \<open>value\<close> of a quantity is held as the text JavaScript prints for it
  (\<^verbatim>\<open>toString()\<close>, template literals): the script only ever prints it.
\<close>

record Quantity =
  qty_value :: "string option"
  qty_unit :: "string option"

record Section =
  sec_title :: "string option"
  sec_entry :: "Reference list option"

record Composition =
  comp_id :: "string option"
  comp_title :: "string option"
  comp_date :: "string option"
  comp_section :: "Section list option"

record Task =
  task_focus :: "Reference option"
  task_businessStatus :: "CodeableConcept option"
  task_extension :: "Extension list option"

record Patient =
  pat_id :: "string option"
  pat_gender :: "string option"
  pat_birthDate :: "string option"
  pat_deceasedDateTime :: "string option"
  pat_maritalStatus :: "CodeableConcept option"
  pat_multipleBirthInteger :: "int option"
  pat_extension :: "Extension list option"
  pat_address :: "Address list option"

record EncounterLocation =
  el_location :: "Reference"

record Encounter =
  enc_id :: "string option"
  enc_location :: "EncounterLocation list option"

record Observation =
  obs_context :: "Reference option"
  obs_code :: "CodeableConcept"
  obs_valueCodeableConcept :: "CodeableConcept option"
  obs_valueQuantity :: "Quantity option"
  obs_valueString :: "string option"

record RelatedPerson =
  rp_id :: "string option"
  rp_patient :: "Reference option"
  rp_relationship :: "CodeableConcept option"

record Location =
  loc_id :: "string option"
  loc_name :: "string option"
  loc_type :: "CodeableConcept option"
  loc_partOf :: "Reference option"
  loc_address :: "Address option"

text \<open>The collections the script reads through the process-wide client.\<close>

record Store =
  st_patients :: "Patient list"
  st_encounters :: "Encounter list"
  st_observations :: "Observation list"
  st_relatedPersons :: "RelatedPerson list"
  st_tasks :: "Task list"

text \<open>\<^verbatim>\<open>cc?.coding?.[0].code\<close>\<close>

definition firstCode :: "CodeableConcept option \<Rightarrow> error + string option" where
  "firstCode cc = (case cc of None \<Rightarrow> Inr None
     | Some c \<Rightarrow> bindE (optElem0 (cc_coding c)) (\<lambda>cd. Inr (Option.bind cd coding_code)))"

text \<open>\<^verbatim>\<open>section.entry?.[0].reference\<close>\<close>

definition entryReference :: "Section \<Rightarrow> error + string option" where
  "entryReference s = bindE (optElem0 (sec_entry s)) (\<lambda>r. Inr (Option.bind r ref_reference))"

text \<open>
  The callback \<^verbatim>\<open>typeof section.entry?.[0].reference === 'string' &&
  section.entry[0].reference.startsWith(prefix)\<close> (and its shorter form in the patient
  filter, which is truthy in the same cases).
\<close>

definition references :: "string \<Rightarrow> Section \<Rightarrow> error + bool" where
  "references prefix s = bindE (entryReference s)
     (\<lambda>r. Inr (case r of None \<Rightarrow> False | Some x \<Rightarrow> startsWith x prefix))"

subsection \<open>Store queries\<close>

text \<open>
  \<^verbatim>\<open>getCollectionDocuments\<close>: the collection is passed with the selector of its \<open>id\<close>
  field. A document matches \<open>{id: {$in: ids}}\<close> when its \<open>id\<close> is one of the strings in
  \<open>ids\<close>; with no ids the whole collection is returned.
\<close>

definition getCollectionDocuments ::
  "('d \<Rightarrow> string option) \<Rightarrow> 'd list \<Rightarrow> string option list \<Rightarrow> 'd list" where
  "getCollectionDocuments idOf collection ids =
     (if length ids > 0
      then filter (\<lambda>d. idOf d \<noteq> None \<and> idOf d \<in> set ids) collection
      else collection)"

definition getObservationDocByEncounterId :: "Store \<Rightarrow> string \<Rightarrow> Observation list" where
  "getObservationDocByEncounterId st encounterId =
     filter (\<lambda>ob. Option.bind (obs_context ob) ref_reference = Some encounterId)
       (st_observations st)"

definition getTaskDocByCompositionId :: "Store \<Rightarrow> string \<Rightarrow> Task list" where
  "getTaskDocByCompositionId st compositionId =
     filter (\<lambda>t. Option.bind (task_focus t) ref_reference = Some compositionId)
       (st_tasks st)"

subsection \<open>The aggregate\<close>

definition officeLocationExtURL :: string where
  "officeLocationExtURL = ''http://opencrvs.org/specs/extension/regLastOffice''"

definition patientOccupationExtURL :: string where
  "patientOccupationExtURL = ''http://opencrvs.org/specs/extension/patient-occupation''"

definition patientEduAttainmentExtURL :: string where
  "patientEduAttainmentExtURL = ''http://opencrvs.org/specs/extension/educational-attainment''"

text \<open>\<^verbatim>\<open>IPatient\<close>, the return type of \<^verbatim>\<open>makePatientObject\<close>.\<close>

record IPatient =
  p_gender :: string
  p_birthDate :: string
  p_deceasedDate :: string
  p_maritalStatus :: string
  p_multipleBirth :: int
  p_occupation :: string
  p_educational_attainment :: string
  p_city :: string
  p_district :: string
  p_state :: string

text \<open>
  \<^verbatim>\<open>IInformant extends IPatient\<close>. The \<open>informant\<close> slot of the aggregate can also be
  filled from a patient section titled \<open>Informant's details\<close>, with a plain patient
  object: then \<open>relationship\<close> is \<open>undefined\<close>.
\<close>

record IInformant = IPatient +
  i_relationship :: "string option"

record IObservation =
  o_causeOfDeathMethod :: string
  o_birthPluralityOfPregnancy :: string
  o_bodyWeightMeasured :: string
  o_birthAttendantTitle :: string
  o_uncertifiedMannerOfDeath :: string
  o_verbalAutopsyDescription :: string
  o_causeOfDeathEstablished :: string
  o_causeOfDeath :: string
  o_numMaleDependentsOnDeceased :: string
  o_numFemaleDependentsOnDeceased :: string
  o_presentAtBirthReg :: string

datatype event = Birth | Death

text \<open>\<^verbatim>\<open>Partial<IFullComposition>\<close>: every property may be absent.\<close>

record IFullComposition =
  fc_event :: "event option"
  fc_deceased :: "IPatient option"
  fc_child :: "IPatient option"
  fc_father :: "IPatient option"
  fc_mother :: "IPatient option"
  fc_informant :: "IInformant option"
  fc_observations :: "IObservation option"
  fc_officeLocation :: "string option"
  fc_healthCenter :: "string option"
  fc_eventDistrict :: "string option"
  fc_eventState :: "string option"
  fc_eventCity :: "string option"

text \<open>The object \<^verbatim>\<open>{}\<close> the aggregate starts from.\<close>

definition emptyFullComposition :: IFullComposition where
  "emptyFullComposition =
     \<lparr>fc_event = None, fc_deceased = None, fc_child = None, fc_father = None,
      fc_mother = None, fc_informant = None, fc_observations = None,
      fc_officeLocation = None, fc_healthCenter = None, fc_eventDistrict = None,
      fc_eventState = None, fc_eventCity = None\<rparr>"

definition TITLE_MAP :: "string \<Rightarrow> string option" where
  "TITLE_MAP title =
     (if title = ''Child details'' then Some ''child''
      else if title = ''Deceased details'' then Some ''deceased''
      else if title = ''Mother's details'' then Some ''mother''
      else if title = ''Father's details'' then Some ''father''
      else if title = ''Informant's details'' then Some ''informant''
      else None)"

text \<open>
  \<^verbatim>\<open>fullComposition[key] = patientObject\<close> for the key \<^verbatim>\<open>TITLE_MAP[section.title]\<close>. With
  a title outside the map the assignment creates a property that is no property of
  \<^verbatim>\<open>IFullComposition\<close> and is never read: the aggregate is unchanged.
\<close>

definition setRole :: "string option \<Rightarrow> IPatient \<Rightarrow> IFullComposition \<Rightarrow> IFullComposition" where
  "setRole key po fc =
     (if key = Some ''child'' then fc\<lparr>fc_child := Some po\<rparr>
      else if key = Some ''deceased'' then fc\<lparr>fc_deceased := Some po\<rparr>
      else if key = Some ''mother'' then fc\<lparr>fc_mother := Some po\<rparr>
      else if key = Some ''father'' then fc\<lparr>fc_father := Some po\<rparr>
      else if key = Some ''informant''
        then fc\<lparr>fc_informant := Some (IPatient.extend po \<lparr>i_relationship = None\<rparr>)\<rparr>
      else fc)"

subsection \<open>Patients\<close>

definition getValueFromExt :: "Patient \<Rightarrow> string \<Rightarrow> string option" where
  "getValueFromExt doc extURL =
     (case pat_extension doc of
        None \<Rightarrow> Some []
      | Some exts \<Rightarrow>
          (case find (\<lambda>obj. ext_url obj = Some extURL) exts of
             Some docExt \<Rightarrow> ext_valueString docExt
           | None \<Rightarrow> Some []))"

definition makePatientObject :: "Patient \<Rightarrow> error + IPatient" where
  "makePatientObject patient =
     bindE (optElem0 (pat_address patient)) (\<lambda>a.
       Inr \<lparr>p_gender = orElse (pat_gender patient) [],
            p_birthDate = orElse (pat_birthDate patient) [],
            p_deceasedDate = orElse (pat_deceasedDateTime patient) [],
            p_maritalStatus = orElse (Option.bind (pat_maritalStatus patient) cc_text) [],
            p_multipleBirth = orElse (pat_multipleBirthInteger patient) 0,
            p_occupation = orElse (getValueFromExt patient patientOccupationExtURL) [],
            p_educational_attainment =
              orElse (getValueFromExt patient patientEduAttainmentExtURL) [],
            p_city = orElse (Option.bind a addr_city) [],
            p_district = orElse (Option.bind a addr_district) [],
            p_state = orElse (Option.bind a addr_state) []\<rparr>)"

text \<open>
  The body of the \<^verbatim>\<open>forEach\<close> in \<^verbatim>\<open>setPatientsAddress\<close>, for one patient: the district
  and state of the first address, when truthy, are overwritten with the name of the
  location of that id. The source mutates the patient in place; here the updated patient
  is returned.
\<close>

definition setPatientAddress :: "Location list \<Rightarrow> Patient \<Rightarrow> error + Patient" where
  "setPatientAddress locations patient =
     (case pat_address patient of
        None \<Rightarrow> Inr patient
      | Some addrs \<Rightarrow>
          bindE (elem0 addrs) (\<lambda>a0.
            let a1 = (if truthy (addr_district a0)
                      then a0\<lparr>addr_district :=
                             Some (orElse (Option.bind
                               (find (\<lambda>l. loc_id l = addr_district a0) locations) loc_name) [])\<rparr>
                      else a0);
                a2 = (if truthy (addr_state a1)
                      then a1\<lparr>addr_state :=
                             Some (orElse (Option.bind
                               (find (\<lambda>l. loc_id l = addr_state a1) locations) loc_name) [])\<rparr>
                      else a1)
            in Inr (patient\<lparr>pat_address := Some (addrs[0 := a2])\<rparr>)))"

definition setPatientsAddress :: "Patient list \<Rightarrow> Location list \<Rightarrow> error + Patient list" where
  "setPatientsAddress patients locations = mapE (setPatientAddress locations) patients"

definition setPatientsDetailsInComposition ::
  "Store \<Rightarrow> Composition \<Rightarrow> IFullComposition \<Rightarrow> Location list \<Rightarrow> error + IFullComposition" where
  "setPatientsDetailsInComposition st composition fullComposition locations =
     (case comp_section composition of
        None \<Rightarrow> Inl TypeError
      | Some sections \<Rightarrow>
          bindE (filterE (references ''Patient/'') sections) (\<lambda>patientList.
          bindE (mapE (\<lambda>patient. bindE (entryReference patient)
                   (\<lambda>r. Inr (map_option (\<lambda>x. replace x ''Patient/'' []) r))) patientList)
            (\<lambda>patientIds.
          bindE (setPatientsAddress
                   (getCollectionDocuments pat_id (st_patients st) patientIds) locations)
            (\<lambda>patients.
          forEachE (\<lambda>fc section.
              bindE (entryReference section) (\<lambda>r.
                case r of
                  None \<Rightarrow> Inr fc
                | Some ref \<Rightarrow>
                    if startsWith ref ''Patient/'' then
                      (case find (\<lambda>p. pat_id p = Some (replace ref ''Patient/'' [])) patients of
                         None \<Rightarrow> Inr fc
                       | Some patient \<Rightarrow>
                           if truthy (sec_title section)
                           then bindE (makePatientObject patient) (\<lambda>po.
                                  Inr (setRole (Option.bind (sec_title section) TITLE_MAP) po fc))
                           else Inr fc)
                    else Inr fc))
            fullComposition sections))))"

subsection \<open>Event location and office location\<close>

text \<open>
  Lines 327 to 355 of \<^verbatim>\<open>setLocationInComposition\<close>, from the point where
  \<open>locationDoc\<close> is known: the climb for a health facility, the lookup by address for
  any other location, and the city.
\<close>

definition isLocationHealthFacility :: "Location \<Rightarrow> error + bool" where
  "isLocationHealthFacility locationDoc =
     bindE (firstCode (loc_type locationDoc)) (\<lambda>c. Inr (c = Some ''HEALTH_FACILITY''))"

definition setEventLocation ::
  "Location \<Rightarrow> Location list \<Rightarrow> IFullComposition \<Rightarrow> error + IFullComposition" where
  "setEventLocation locationDoc locations fullComposition =
     bindE (isLocationHealthFacility locationDoc) (\<lambda>healthFacility.
       let fc1 =
         (if healthFacility then
            let districtLocationId =
                  String (map_option (\<lambda>x. replace x ''Location/'' [])
                    (Option.bind (loc_partOf locationDoc) ref_reference));
                districtLocationDoc = find (\<lambda>l. loc_id l = Some districtLocationId) locations;
                stateLocationId =
                  String (map_option (\<lambda>x. replace x ''Location/'' [])
                    (Option.bind (Option.bind districtLocationDoc loc_partOf) ref_reference));
                stateLocationDoc = find (\<lambda>l. loc_id l = Some stateLocationId) locations
            in fullComposition
                 \<lparr>fc_healthCenter := Some (orElse (loc_name locationDoc) []),
                  fc_eventDistrict := Some (orElse (Option.bind districtLocationDoc loc_name) []),
                  fc_eventState := Some (orElse (Option.bind stateLocationDoc loc_name) [])\<rparr>
          else
            let districtLocation =
                  find (\<lambda>l. loc_id l = Option.bind (loc_address locationDoc) addr_district)
                    locations;
                stateLocation =
                  find (\<lambda>l. loc_id l = Option.bind (loc_address locationDoc) addr_state)
                    locations
            in fullComposition
                 \<lparr>fc_eventDistrict := Some (orElse (Option.bind districtLocation loc_name) []),
                  fc_eventState := Some (orElse (Option.bind stateLocation loc_name) [])\<rparr>)
       in Inr (fc1\<lparr>fc_eventCity :=
                    Some (orElse (Option.bind (loc_address locationDoc) addr_city) [])\<rparr>))"

text \<open>\<^verbatim>\<open>composition.section?.find(section => ... startsWith(prefix))\<close>\<close>

definition findSection :: "string \<Rightarrow> Composition \<Rightarrow> error + Section option" where
  "findSection prefix composition =
     (case comp_section composition of
        None \<Rightarrow> Inr None
      | Some sections \<Rightarrow> findE (references prefix) sections)"

text \<open>\<^verbatim>\<open>s?.entry?.[0].reference\<close> of the section found, if any.\<close>

definition foundReference :: "Section option \<Rightarrow> error + string option" where
  "foundReference s = (case s of None \<Rightarrow> Inr None | Some sec \<Rightarrow> entryReference sec)"

definition setLocationInComposition ::
  "Store \<Rightarrow> Composition \<Rightarrow> IFullComposition \<Rightarrow> Location list \<Rightarrow> Task
     \<Rightarrow> error + IFullComposition" where
  "setLocationInComposition st composition fullComposition locations task =
     bindE (findSection ''Encounter/'' composition) (\<lambda>encounter.
     bindE (foundReference encounter) (\<lambda>r.
       let encounterId = orElse (map_option (\<lambda>x. replace x ''Encounter/'' []) r) [];
           encounterDoc = getCollectionDocuments enc_id (st_encounters st) [Some encounterId]
       in
     bindE (elem0 encounterDoc) (\<lambda>enc.
     bindE (optElem0 (enc_location enc)) (\<lambda>el.
       let locationId =
             Option.bind el (\<lambda>l. map_option (\<lambda>x. replace x ''Location/'' [])
               (ref_reference (el_location l)))
       in
       case find (\<lambda>l. loc_id l = locationId) locations of
         None \<Rightarrow> Inl TypeError
       | Some locationDoc \<Rightarrow>
           bindE (setEventLocation locationDoc locations fullComposition) (\<lambda>fc.
             let officeLocationId =
                   map_option (\<lambda>x. replace x ''Location/'' [])
                     (Option.bind
                        (Option.bind
                           (Option.bind (task_extension task)
                              (find (\<lambda>obj. ext_url obj = Some officeLocationExtURL)))
                           ext_valueReference)
                        ref_reference);
                 officeLocation = find (\<lambda>l. loc_id l = officeLocationId) locations
             in Inr (fc\<lparr>fc_officeLocation :=
                          Some (orElse (Option.bind officeLocation loc_name) [])\<rparr>))))))"

subsection \<open>Observations\<close>

definition CAUSE_OF_DEATH_METHOD :: string where
  "CAUSE_OF_DEATH_METHOD = ''cause-of-death-method''"
definition BIRTH_PLURALITY_OF_PREGNANCY :: string where
  "BIRTH_PLURALITY_OF_PREGNANCY = ''57722-1''"
definition BODY_WEIGHT_MEASURED :: string where
  "BODY_WEIGHT_MEASURED = ''3141-9''"
definition BIRTH_ATTENDANT_TITLE :: string where
  "BIRTH_ATTENDANT_TITLE = ''73764-3''"
definition CAUSE_OF_DEATH :: string where
  "CAUSE_OF_DEATH = ''ICD10''"
definition UNCERTIFIED_MANNER_OF_DEATH :: string where
  "UNCERTIFIED_MANNER_OF_DEATH = ''uncertified-manner-of-death''"
definition VERBAL_AUTOPSY_DESCRIPTION :: string where
  "VERBAL_AUTOPSY_DESCRIPTION = ''lay-reported-or-verbal-autopsy-description''"
definition CAUSE_OF_DEATH_ESTABLISHED :: string where
  "CAUSE_OF_DEATH_ESTABLISHED = ''cause-of-death-established''"
definition NUM_MALE_DEPENDENTS_ON_DECEASED :: string where
  "NUM_MALE_DEPENDENTS_ON_DECEASED = ''num-male-dependents-on-deceased''"
definition NUM_FEMALE_DEPENDENTS_ON_DECEASED :: string where
  "NUM_FEMALE_DEPENDENTS_ON_DECEASED = ''num-female-dependents-on-deceased''"
definition PRESENT_AT_BIRTH_REG :: string where
  "PRESENT_AT_BIRTH_REG = ''present-at-birth-reg''"

definition findCodeInObservation :: "Observation \<Rightarrow> string \<Rightarrow> error + Observation option" where
  "findCodeInObservation observation c =
     bindE (firstCode (Some (obs_code observation)))
       (\<lambda>k. Inr (if k = Some c then Some observation else None))"

text \<open>The three shapes of value the script reads from a matching observation.\<close>

definition codedValue :: "Observation \<Rightarrow> error + string" where
  "codedValue ob = bindE (firstCode (obs_valueCodeableConcept ob)) (\<lambda>c. Inr (orElse c []))"

definition stringValue :: "Observation \<Rightarrow> error + string" where
  "stringValue ob = Inr (orElse (obs_valueString ob) [])"

definition quantityValue :: "Observation \<Rightarrow> error + string" where
  "quantityValue ob = Inr (orElse (Option.bind (obs_valueQuantity ob) qty_value) [])"

definition quantityWithUnit :: "Observation \<Rightarrow> error + string" where
  "quantityWithUnit ob =
     Inr (String (Option.bind (obs_valueQuantity ob) qty_value) @ '' '' @
          String (Option.bind (obs_valueQuantity ob) qty_unit))"

text \<open>
  \<^verbatim>\<open>if (found) { observationObj[field] = value }\<close>: \<open>upd\<close> is the assignment to the field.
\<close>

definition assignIf ::
  "Observation option \<Rightarrow> (Observation \<Rightarrow> error + string) \<Rightarrow> (string \<Rightarrow> IObservation \<Rightarrow> IObservation)
     \<Rightarrow> IObservation \<Rightarrow> error + IObservation" where
  "assignIf found rule upd obj =
     (case found of None \<Rightarrow> Inr obj | Some ob \<Rightarrow> bindE (rule ob) (\<lambda>v. Inr (upd v obj)))"

text \<open>The body of the \<^verbatim>\<open>forEach\<close> over the observations: eleven lookups, then eleven
  conditional assignments, in source order.\<close>

definition observationStep :: "IObservation \<Rightarrow> Observation \<Rightarrow> error + IObservation" where
  "observationStep observationObj observation =
     bindE (findCodeInObservation observation CAUSE_OF_DEATH_METHOD) (\<lambda>causeOfDeathMethod.
     bindE (findCodeInObservation observation BIRTH_PLURALITY_OF_PREGNANCY) (\<lambda>birthPluralityOfPregnancy.
     bindE (findCodeInObservation observation BODY_WEIGHT_MEASURED) (\<lambda>bodyWeightMeasured.
     bindE (findCodeInObservation observation BIRTH_ATTENDANT_TITLE) (\<lambda>birthAttendantTitle.
     bindE (findCodeInObservation observation UNCERTIFIED_MANNER_OF_DEATH) (\<lambda>uncertifiedMannerOfDeath.
     bindE (findCodeInObservation observation VERBAL_AUTOPSY_DESCRIPTION) (\<lambda>verbalAutopsyDescription.
     bindE (findCodeInObservation observation CAUSE_OF_DEATH_ESTABLISHED) (\<lambda>causeOfDeathEstablished.
     bindE (findCodeInObservation observation CAUSE_OF_DEATH) (\<lambda>causeOfDeath.
     bindE (findCodeInObservation observation NUM_MALE_DEPENDENTS_ON_DECEASED) (\<lambda>numMaleDependentsOnDeceased.
     bindE (findCodeInObservation observation NUM_FEMALE_DEPENDENTS_ON_DECEASED) (\<lambda>numFemaleDependentsOnDeceased.
     bindE (findCodeInObservation observation PRESENT_AT_BIRTH_REG) (\<lambda>presentAtBirthReg.
     bindE (assignIf causeOfDeathMethod codedValue
              (\<lambda>v obj. obj\<lparr>o_causeOfDeathMethod := v\<rparr>) observationObj) (\<lambda>o1.
     bindE (assignIf birthPluralityOfPregnancy quantityValue
              (\<lambda>v obj. obj\<lparr>o_birthPluralityOfPregnancy := v\<rparr>) o1) (\<lambda>o2.
     bindE (assignIf bodyWeightMeasured quantityWithUnit
              (\<lambda>v obj. obj\<lparr>o_bodyWeightMeasured := v\<rparr>) o2) (\<lambda>o3.
     bindE (assignIf birthAttendantTitle stringValue
              (\<lambda>v obj. obj\<lparr>o_birthAttendantTitle := v\<rparr>) o3) (\<lambda>o4.
     bindE (assignIf uncertifiedMannerOfDeath codedValue
              (\<lambda>v obj. obj\<lparr>o_uncertifiedMannerOfDeath := v\<rparr>) o4) (\<lambda>o5.
     bindE (assignIf verbalAutopsyDescription stringValue
              (\<lambda>v obj. obj\<lparr>o_verbalAutopsyDescription := v\<rparr>) o5) (\<lambda>o6.
     bindE (assignIf causeOfDeathEstablished codedValue
              (\<lambda>v obj. obj\<lparr>o_causeOfDeathEstablished := v\<rparr>) o6) (\<lambda>o7.
     bindE (assignIf causeOfDeath codedValue
              (\<lambda>v obj. obj\<lparr>o_causeOfDeath := v\<rparr>) o7) (\<lambda>o8.
     bindE (assignIf numMaleDependentsOnDeceased stringValue
              (\<lambda>v obj. obj\<lparr>o_numMaleDependentsOnDeceased := v\<rparr>) o8) (\<lambda>o9.
     bindE (assignIf numFemaleDependentsOnDeceased stringValue
              (\<lambda>v obj. obj\<lparr>o_numFemaleDependentsOnDeceased := v\<rparr>) o9) (\<lambda>o10.
     assignIf presentAtBirthReg stringValue
              (\<lambda>v obj. obj\<lparr>o_presentAtBirthReg := v\<rparr>) o10)))))))))))))))))))))"

definition emptyObservation :: IObservation where
  "emptyObservation =
     \<lparr>o_causeOfDeathMethod = [], o_birthPluralityOfPregnancy = [],
      o_bodyWeightMeasured = [], o_birthAttendantTitle = [],
      o_uncertifiedMannerOfDeath = [], o_verbalAutopsyDescription = [],
      o_causeOfDeathEstablished = [], o_causeOfDeath = [],
      o_numMaleDependentsOnDeceased = [], o_numFemaleDependentsOnDeceased = [],
      o_presentAtBirthReg = []\<rparr>"

text \<open>The extraction over a list of observations (the \<^verbatim>\<open>forEach\<close> of lines 391 to 481).\<close>

definition extractObservations :: "Observation list \<Rightarrow> error + IObservation" where
  "extractObservations observations = forEachE observationStep emptyObservation observations"

definition setObservationDetailsInComposition ::
  "Store \<Rightarrow> Composition \<Rightarrow> IFullComposition \<Rightarrow> error + IFullComposition" where
  "setObservationDetailsInComposition st composition fullComposition =
     bindE (findSection ''Encounter/'' composition) (\<lambda>encounter.
     bindE (foundReference encounter) (\<lambda>r.
     bindE (extractObservations (getObservationDocByEncounterId st (String r)))
       (\<lambda>observationObj. Inr (fullComposition\<lparr>fc_observations := Some observationObj\<rparr>))))"

subsection \<open>Informant\<close>

definition setInformantDetailsInComposition ::
  "Store \<Rightarrow> Composition \<Rightarrow> IFullComposition \<Rightarrow> Location list \<Rightarrow> error + IFullComposition" where
  "setInformantDetailsInComposition st composition fullComposition locations =
     bindE (findSection ''RelatedPerson/'' composition) (\<lambda>informant.
     bindE (foundReference informant) (\<lambda>r.
       let informantId = orElse (map_option (\<lambda>x. replace x ''RelatedPerson/'' []) r) [];
           relatedPerson =
             getCollectionDocuments rp_id (st_relatedPersons st) [Some informantId]
       in
     bindE (elem0 relatedPerson) (\<lambda>rp.
       case rp_patient rp of
         None \<Rightarrow> Inr fullComposition
       | Some pref \<Rightarrow>
           let patientId = map_option (\<lambda>x. replace x ''Patient/'' []) (ref_reference pref) in
           bindE (setPatientsAddress
                    (getCollectionDocuments pat_id (st_patients st) [Some (String patientId)])
                    locations) (\<lambda>patient.
           bindE (firstCode (rp_relationship rp)) (\<lambda>rel.
           bindE (elem0 patient) (\<lambda>p0.
           bindE (makePatientObject p0) (\<lambda>po.
             Inr (fullComposition\<lparr>fc_informant :=
                    Some (IPatient.extend po \<lparr>i_relationship = Some (orElse rel [])\<rparr>)\<rparr>))))))))"

subsection \<open>Rows\<close>

record IBirthRow =
  b_childGen :: string
  b_childDOB :: string
  b_childOrd :: int
  b_birthCity :: string
  b_birthState :: string
  b_birthDistrict :: string
  b_healthCenter :: string
  b_officeLocation :: string
  b_birthPluralityOfPregnancy :: string
  b_bodyWeightMeasured :: string
  b_birthAttendantTitle :: string
  b_presentAtBirthReg :: string
  b_motherDOB :: string
  b_motherMaritalStatus :: string
  b_motherOccupation :: string
  b_motherEducationalAttainment :: string
  b_motherCity :: string
  b_motherDistrict :: string
  b_motherState :: string
  b_fatherDOB :: string
  b_fatherMaritalStatus :: string
  b_fatherOccupation :: string
  b_fatherEducationalAttainment :: string
  b_fatherCity :: string
  b_fatherDistrict :: string
  b_fatherState :: string
  b_informantDOB :: string
  b_informantMaritalStatus :: string
  b_informantOccupation :: string
  b_informantEducationalAttainment :: string
  b_informantCity :: string
  b_informantDistrict :: string
  b_informantState :: string
  b_informantRelationship :: string

record IDeathRow =
  d_deceasedGen :: string
  d_deceasedDOB :: string
  d_deceasedMaritalStatus :: string
  d_deceasedDate :: string
  d_deathCity :: string
  d_deathState :: string
  d_deathDistrict :: string
  d_healthCenter :: string
  d_officeLocation :: string
  d_uncertifiedMannerOfDeath :: string
  d_verbalAutopsyDescription :: string
  d_causeOfDeathMethod :: string
  d_causeOfDeathEstablished :: string
  d_causeOfDeath :: string
  d_numMaleDependentsOnDeceased :: string
  d_numFemaleDependentsOnDeceased :: string
  d_informantDOB :: string
  d_informantMaritalStatus :: string
  d_informantOccupation :: string
  d_informantCity :: string
  d_informantDistrict :: string
  d_informantState :: string
  d_informantRelationship :: string

text \<open>The object literals the two rows start from (lines 725 to 760 and 823 to 847).\<close>

definition defaultBirthRow :: IBirthRow where
  "defaultBirthRow =
     \<lparr>b_childGen = [],
      b_childDOB = [],
      b_childOrd = 0,
      b_birthCity = [],
      b_birthState = [],
      b_birthDistrict = [],
      b_healthCenter = [],
      b_officeLocation = [],
      b_birthPluralityOfPregnancy = [],
      b_bodyWeightMeasured = [],
      b_birthAttendantTitle = [],
      b_presentAtBirthReg = [],
      b_motherDOB = [],
      b_motherMaritalStatus = [],
      b_motherOccupation = [],
      b_motherEducationalAttainment = [],
      b_motherCity = [],
      b_motherDistrict = [],
      b_motherState = [],
      b_fatherDOB = [],
      b_fatherMaritalStatus = [],
      b_fatherOccupation = [],
      b_fatherEducationalAttainment = [],
      b_fatherCity = [],
      b_fatherDistrict = [],
      b_fatherState = [],
      b_informantDOB = [],
      b_informantMaritalStatus = [],
      b_informantOccupation = [],
      b_informantEducationalAttainment = [],
      b_informantCity = [],
      b_informantDistrict = [],
      b_informantState = [],
      b_informantRelationship = []\<rparr>"

definition defaultDeathRow :: IDeathRow where
  "defaultDeathRow =
     \<lparr>d_deceasedGen = [],
      d_deceasedDOB = [],
      d_deceasedMaritalStatus = [],
      d_deceasedDate = [],
      d_deathCity = [],
      d_deathState = [],
      d_deathDistrict = [],
      d_healthCenter = [],
      d_officeLocation = [],
      d_uncertifiedMannerOfDeath = [],
      d_verbalAutopsyDescription = [],
      d_causeOfDeathMethod = [],
      d_causeOfDeathEstablished = [],
      d_causeOfDeath = [],
      d_numMaleDependentsOnDeceased = [],
      d_numFemaleDependentsOnDeceased = [],
      d_informantDOB = [],
      d_informantMaritalStatus = [],
      d_informantOccupation = [],
      d_informantCity = [],
      d_informantDistrict = [],
      d_informantState = [],
      d_informantRelationship = []\<rparr>"

text \<open>
  A row as the object the writer receives: the keys of the literal, in its order, with
  the values the row holds when it is written.
\<close>

definition birthRowObject :: "IBirthRow \<Rightarrow> object" where
  "birthRowObject r =
     [(''childGen'', Str (b_childGen r)),
      (''childDOB'', Str (b_childDOB r)),
      (''childOrd'', Num (b_childOrd r)),
      (''birthCity'', Str (b_birthCity r)),
      (''birthState'', Str (b_birthState r)),
      (''birthDistrict'', Str (b_birthDistrict r)),
      (''healthCenter'', Str (b_healthCenter r)),
      (''officeLocation'', Str (b_officeLocation r)),
      (''birthPluralityOfPregnancy'', Str (b_birthPluralityOfPregnancy r)),
      (''bodyWeightMeasured'', Str (b_bodyWeightMeasured r)),
      (''birthAttendantTitle'', Str (b_birthAttendantTitle r)),
      (''presentAtBirthReg'', Str (b_presentAtBirthReg r)),
      (''motherDOB'', Str (b_motherDOB r)),
      (''motherMaritalStatus'', Str (b_motherMaritalStatus r)),
      (''motherOccupation'', Str (b_motherOccupation r)),
      (''motherEducationalAttainment'', Str (b_motherEducationalAttainment r)),
      (''motherCity'', Str (b_motherCity r)),
      (''motherDistrict'', Str (b_motherDistrict r)),
      (''motherState'', Str (b_motherState r)),
      (''fatherDOB'', Str (b_fatherDOB r)),
      (''fatherMaritalStatus'', Str (b_fatherMaritalStatus r)),
      (''fatherOccupation'', Str (b_fatherOccupation r)),
      (''fatherEducationalAttainment'', Str (b_fatherEducationalAttainment r)),
      (''fatherCity'', Str (b_fatherCity r)),
      (''fatherDistrict'', Str (b_fatherDistrict r)),
      (''fatherState'', Str (b_fatherState r)),
      (''informantDOB'', Str (b_informantDOB r)),
      (''informantMaritalStatus'', Str (b_informantMaritalStatus r)),
      (''informantOccupation'', Str (b_informantOccupation r)),
      (''informantEducationalAttainment'', Str (b_informantEducationalAttainment r)),
      (''informantCity'', Str (b_informantCity r)),
      (''informantDistrict'', Str (b_informantDistrict r)),
      (''informantState'', Str (b_informantState r)),
      (''informantRelationship'', Str (b_informantRelationship r))]"

definition deathRowObject :: "IDeathRow \<Rightarrow> object" where
  "deathRowObject r =
     [(''deceasedGen'', Str (d_deceasedGen r)),
      (''deceasedDOB'', Str (d_deceasedDOB r)),
      (''deceasedMaritalStatus'', Str (d_deceasedMaritalStatus r)),
      (''deceasedDate'', Str (d_deceasedDate r)),
      (''deathCity'', Str (d_deathCity r)),
      (''deathState'', Str (d_deathState r)),
      (''deathDistrict'', Str (d_deathDistrict r)),
      (''healthCenter'', Str (d_healthCenter r)),
      (''officeLocation'', Str (d_officeLocation r)),
      (''uncertifiedMannerOfDeath'', Str (d_uncertifiedMannerOfDeath r)),
      (''verbalAutopsyDescription'', Str (d_verbalAutopsyDescription r)),
      (''causeOfDeathMethod'', Str (d_causeOfDeathMethod r)),
      (''causeOfDeathEstablished'', Str (d_causeOfDeathEstablished r)),
      (''causeOfDeath'', Str (d_causeOfDeath r)),
      (''numMaleDependentsOnDeceased'', Str (d_numMaleDependentsOnDeceased r)),
      (''numFemaleDependentsOnDeceased'', Str (d_numFemaleDependentsOnDeceased r)),
      (''informantDOB'', Str (d_informantDOB r)),
      (''informantMaritalStatus'', Str (d_informantMaritalStatus r)),
      (''informantOccupation'', Str (d_informantOccupation r)),
      (''informantCity'', Str (d_informantCity r)),
      (''informantDistrict'', Str (d_informantDistrict r)),
      (''informantState'', Str (d_informantState r)),
      (''informantRelationship'', Str (d_informantRelationship r))]"

text \<open>\<^verbatim>\<open>x?.f ?? d\<close> for a property \<open>f\<close> that is never \<open>undefined\<close> on a present \<open>x\<close>.\<close>

definition fieldOr :: "'p option \<Rightarrow> ('p \<Rightarrow> 'a) \<Rightarrow> 'a \<Rightarrow> 'a" where
  "fieldOr x f d = (case x of None \<Rightarrow> d | Some p \<Rightarrow> f p)"

text \<open>The assignments to \<open>birthRow\<close>, lines 762 to 819.\<close>

definition makeBirthRow :: "IFullComposition \<Rightarrow> IBirthRow" where
  "makeBirthRow fullComposition =
     defaultBirthRow
       \<lparr>b_birthDistrict := orElse (fc_eventDistrict fullComposition) [],
        b_birthState := orElse (fc_eventState fullComposition) [],
        b_birthCity := orElse (fc_eventCity fullComposition) [],
        b_healthCenter := orElse (fc_healthCenter fullComposition) [],
        b_officeLocation := orElse (fc_officeLocation fullComposition) [],
        b_childGen := fieldOr (fc_child fullComposition) p_gender [],
        b_childDOB := fieldOr (fc_child fullComposition) p_birthDate [],
        b_childOrd := fieldOr (fc_child fullComposition) p_multipleBirth 0,
        b_motherDOB := fieldOr (fc_mother fullComposition) p_birthDate [],
        b_motherMaritalStatus := fieldOr (fc_mother fullComposition) p_maritalStatus [],
        b_motherOccupation := fieldOr (fc_mother fullComposition) p_occupation [],
        b_motherEducationalAttainment :=
          fieldOr (fc_mother fullComposition) p_educational_attainment [],
        b_motherCity := fieldOr (fc_mother fullComposition) p_city [],
        b_motherDistrict := fieldOr (fc_mother fullComposition) p_district [],
        b_motherState := fieldOr (fc_mother fullComposition) p_state [],
        b_fatherDOB := fieldOr (fc_father fullComposition) p_birthDate [],
        b_fatherMaritalStatus := fieldOr (fc_father fullComposition) p_maritalStatus [],
        b_fatherOccupation := fieldOr (fc_father fullComposition) p_occupation [],
        b_fatherEducationalAttainment :=
          fieldOr (fc_father fullComposition) p_educational_attainment [],
        b_fatherCity := fieldOr (fc_father fullComposition) p_city [],
        b_fatherDistrict := fieldOr (fc_father fullComposition) p_district [],
        b_fatherState := fieldOr (fc_father fullComposition) p_state [],
        b_informantDOB := fieldOr (fc_informant fullComposition) p_birthDate [],
        b_informantMaritalStatus := fieldOr (fc_informant fullComposition) p_maritalStatus [],
        b_informantOccupation := fieldOr (fc_informant fullComposition) p_occupation [],
        b_informantEducationalAttainment :=
          fieldOr (fc_informant fullComposition) p_educational_attainment [],
        b_informantCity := fieldOr (fc_informant fullComposition) p_city [],
        b_informantDistrict := fieldOr (fc_informant fullComposition) p_district [],
        b_informantState := fieldOr (fc_informant fullComposition) p_state [],
        b_informantRelationship :=
          orElse (Option.bind (fc_informant fullComposition) i_relationship) [],
        b_birthPluralityOfPregnancy :=
          fieldOr (fc_observations fullComposition) o_birthPluralityOfPregnancy [],
        b_bodyWeightMeasured :=
          fieldOr (fc_observations fullComposition) o_bodyWeightMeasured [],
        b_birthAttendantTitle :=
          fieldOr (fc_observations fullComposition) o_birthAttendantTitle [],
        b_presentAtBirthReg :=
          fieldOr (fc_observations fullComposition) o_presentAtBirthReg []\<rparr>"

text \<open>The assignments to \<open>deathRow\<close>, lines 849 to 892.\<close>

definition makeDeathRow :: "IFullComposition \<Rightarrow> IDeathRow" where
  "makeDeathRow fullComposition =
     defaultDeathRow
       \<lparr>d_healthCenter := orElse (fc_healthCenter fullComposition) [],
        d_officeLocation := orElse (fc_officeLocation fullComposition) [],
        d_deathDistrict := fieldOr (fc_deceased fullComposition) p_district [],
        d_deathState := fieldOr (fc_deceased fullComposition) p_state [],
        d_deathCity := fieldOr (fc_deceased fullComposition) p_city [],
        d_deceasedGen := fieldOr (fc_deceased fullComposition) p_gender [],
        d_deceasedDOB := fieldOr (fc_deceased fullComposition) p_birthDate [],
        d_deceasedMaritalStatus := fieldOr (fc_deceased fullComposition) p_maritalStatus [],
        d_deceasedDate := fieldOr (fc_deceased fullComposition) p_deceasedDate [],
        d_informantDOB := fieldOr (fc_informant fullComposition) p_birthDate [],
        d_informantMaritalStatus := fieldOr (fc_informant fullComposition) p_maritalStatus [],
        d_informantOccupation := fieldOr (fc_informant fullComposition) p_occupation [],
        d_informantCity := fieldOr (fc_informant fullComposition) p_city [],
        d_informantDistrict := fieldOr (fc_informant fullComposition) p_district [],
        d_informantState := fieldOr (fc_informant fullComposition) p_state [],
        d_informantRelationship :=
          orElse (Option.bind (fc_informant fullComposition) i_relationship) [],
        d_uncertifiedMannerOfDeath :=
          fieldOr (fc_observations fullComposition) o_uncertifiedMannerOfDeath [],
        d_verbalAutopsyDescription :=
          fieldOr (fc_observations fullComposition) o_verbalAutopsyDescription [],
        d_causeOfDeathMethod :=
          fieldOr (fc_observations fullComposition) o_causeOfDeathMethod [],
        d_causeOfDeathEstablished :=
          (if truthy (map_option o_causeOfDeathEstablished (fc_observations fullComposition))
           then ''Yes'' else ''No''),
        d_causeOfDeath := fieldOr (fc_observations fullComposition) o_causeOfDeath [],
        d_numMaleDependentsOnDeceased :=
          fieldOr (fc_observations fullComposition) o_numMaleDependentsOnDeceased [],
        d_numFemaleDependentsOnDeceased :=
          fieldOr (fc_observations fullComposition) o_numFemaleDependentsOnDeceased []\<rparr>"

subsection \<open>The batch loop\<close>

text \<open>
  Lines 699 to 723: the clinical sections are kept, the aggregate is created with its
  event and filled by the four resolution steps.
\<close>

definition clinicalSections :: "Composition \<Rightarrow> Composition" where
  "clinicalSections composition =
     composition\<lparr>comp_section :=
       map_option
         (filter (\<lambda>sec. truthy (sec_title sec) \<and>
                    sec_title sec \<notin> set [Some ''Certificates'', Some ''Supporting Documents'']))
         (comp_section composition)\<rparr>"

definition makeFullComposition ::
  "Store \<Rightarrow> Location list \<Rightarrow> Task \<Rightarrow> Composition \<Rightarrow> error + IFullComposition" where
  "makeFullComposition st locations task composition0 =
     (let composition = clinicalSections composition0;
          fc0 = emptyFullComposition
                  \<lparr>fc_event := Some (if comp_title composition = Some ''Birth Declaration''
                                      then Birth else Death)\<rparr>
      in
      bindE (setPatientsDetailsInComposition st composition fc0 locations) (\<lambda>fc1.
      bindE (setLocationInComposition st composition fc1 locations task) (\<lambda>fc2.
      bindE (setObservationDetailsInComposition st composition fc2) (\<lambda>fc3.
      setInformantDetailsInComposition st composition fc3 locations))))"

text \<open>The two writers, threaded through the loop.\<close>

record Writers =
  birthCSVWriter :: CsvWriter
  deathCSVWriter :: CsvWriter

text \<open>Lines 724 to 895: the row for the event of the aggregate is built and written.\<close>

definition writeRow :: "IFullComposition \<Rightarrow> Writers \<Rightarrow> Writers" where
  "writeRow fullComposition ws =
     (if fc_event fullComposition = Some Birth
      then ws\<lparr>birthCSVWriter :=
                writeRecords (birthCSVWriter ws) [birthRowObject (makeBirthRow fullComposition)]\<rparr>
      else if fc_event fullComposition = Some Death
      then ws\<lparr>deathCSVWriter :=
                writeRecords (deathCSVWriter ws) [deathRowObject (makeDeathRow fullComposition)]\<rparr>
      else ws)"

text \<open>The body of the \<^verbatim>\<open>try\<close> block for one composition taken from the cursor.\<close>

definition businessStatusOf :: "Task \<Rightarrow> error + string option" where
  "businessStatusOf task = firstCode (task_businessStatus task)"

definition tryComposition ::
  "Store \<Rightarrow> Location list \<Rightarrow> Writers \<Rightarrow> Composition \<Rightarrow> error + Writers" where
  "tryComposition st locations ws composition =
     bindE (elem0 (getTaskDocByCompositionId st (''Composition/'' @ String (comp_id composition))))
       (\<lambda>task.
     bindE (businessStatusOf task) (\<lambda>businessStatus.
       if businessStatus = Some ''CERTIFIED'' \<or> businessStatus = Some ''REGISTERED''
       then bindE (makeFullComposition st locations task composition)
              (\<lambda>fullComposition. Inr (writeRow fullComposition ws))
       else Inr ws))"

text \<open>\<^verbatim>\<open>try { ... } catch (error) { console.log(...) }\<close>: a failure is logged and the loop
  goes on; nothing was written for the record, as the only write is the last statement.\<close>

definition processComposition ::
  "Store \<Rightarrow> Location list \<Rightarrow> Writers \<Rightarrow> Composition \<Rightarrow> Writers" where
  "processComposition st locations ws composition =
     (case tryComposition st locations ws composition of Inl e \<Rightarrow> ws | Inr ws' \<Rightarrow> ws')"

text \<open>\<^verbatim>\<open>makeCompositionAndExportCSVReport\<close>: the cursor is the list of compositions it
  yields, in order.\<close>

definition makeCompositionAndExportCSVReport ::
  "Store \<Rightarrow> Composition list \<Rightarrow> Location list \<Rightarrow> Writers \<Rightarrow> Writers" where
  "makeCompositionAndExportCSVReport st compositionsCursor locations ws =
     (if length compositionsCursor > 0
      then foldl (processComposition st locations) ws compositionsCursor
      else ws)"

subsection \<open>The month windows of \<^verbatim>\<open>startScript\<close>\<close>

text \<open>
  A \<^verbatim>\<open>Date\<close> of the script is held as the calendar day (proleptic Gregorian) that
  date-fns reads from it in the time zone of the process; \<open>dt_month\<close> counts from 1.
  The zone of the process is given by \<open>zone d\<close>, its offset from UTC in minutes at
  midnight UTC of the day \<open>d\<close>, strictly between minus and plus one day. Every date of
  the loop has the same local time of day, which \<^verbatim>\<open>addDays\<close> keeps and no function of
  the loop reads (that time of day is taken to exist on every day of the loop).
\<close>

record Date =
  dt_year :: int
  dt_month :: int
  dt_day :: int

definition isLeapYear :: "int \<Rightarrow> bool" where
  "isLeapYear y = (y mod 400 = 0 \<or> (y mod 4 = 0 \<and> y mod 100 \<noteq> 0))"

definition daysIn :: "int \<Rightarrow> int \<Rightarrow> int" where
  "daysIn y m =
     (if m = 2 then (if isLeapYear y then 29 else 28)
      else if m = 4 \<or> m = 6 \<or> m = 9 \<or> m = 11 then 30
      else 31)"

definition getDaysInMonth :: "Date \<Rightarrow> int" where
  "getDaysInMonth d = daysIn (dt_year d) (dt_month d)"

definition getDate :: "Date \<Rightarrow> int" where
  "getDate d = dt_day d"

definition validDate :: "Date \<Rightarrow> bool" where
  "validDate d = (1 \<le> dt_month d \<and> dt_month d \<le> 12 \<and> 1 \<le> dt_day d \<and> dt_day d \<le> getDaysInMonth d)"

definition differenceInCalendarMonths :: "Date \<Rightarrow> Date \<Rightarrow> int" where
  "differenceInCalendarMonths dateLeft dateRight =
     (dt_year dateLeft - dt_year dateRight) * 12 + (dt_month dateLeft - dt_month dateRight)"

definition nextDay :: "Date \<Rightarrow> Date" where
  "nextDay d =
     (if dt_day d < getDaysInMonth d then d\<lparr>dt_day := dt_day d + 1\<rparr>
      else if dt_month d < 12 then \<lparr>dt_year = dt_year d, dt_month = dt_month d + 1, dt_day = 1\<rparr>
      else \<lparr>dt_year = dt_year d + 1, dt_month = 1, dt_day = 1\<rparr>)"

definition prevDay :: "Date \<Rightarrow> Date" where
  "prevDay d =
     (if 1 < dt_day d then d\<lparr>dt_day := dt_day d - 1\<rparr>
      else if 1 < dt_month d
        then \<lparr>dt_year = dt_year d, dt_month = dt_month d - 1,
              dt_day = daysIn (dt_year d) (dt_month d - 1)\<rparr>
      else \<lparr>dt_year = dt_year d - 1, dt_month = 12, dt_day = 31\<rparr>)"

definition addDays :: "Date \<Rightarrow> int \<Rightarrow> Date" where
  "addDays d amount =
     (if 0 \<le> amount then (nextDay ^^ nat amount) d else (prevDay ^^ nat (- amount)) d)"

text \<open>
  The \<^verbatim>\<open>for\<close> loop of \<^verbatim>\<open>startScript\<close>, collecting the window of each iteration: the pair
  of dates that are formatted into \<open>formatedStartDate\<close> (with \<open>T00:00:00.000Z\<close>) and
  \<open>formatedEndDate\<close> (with \<open>T23:59:59.000Z\<close>).
\<close>

function windowsFrom :: "int \<Rightarrow> int \<Rightarrow> Date \<Rightarrow> Date \<Rightarrow> (Date \<times> Date) list" where
  "windowsFrom month totalMonths startDate endDate =
     (if month < totalMonths then
        (let daysInMonths = getDaysInMonth startDate;
             dayPassed = getDate startDate;
             daysToMonth = daysInMonths - dayPassed;
             lastOneMonth = (if month + 1 = totalMonths then endDate
                             else addDays startDate daysToMonth)
         in (startDate, lastOneMonth) #
              windowsFrom (month + 1) totalMonths (addDays lastOneMonth 1) endDate)
      else [])"
  by pat_completeness auto
termination
  by (relation "measure (\<lambda>(month, totalMonths, startDate, endDate). nat (totalMonths - month))") auto

text \<open>
  \<^verbatim>\<open>new Date(process.argv[i])\<close> for a date-only ISO string naming the day \<open>isoDay\<close>: the
  string is parsed as midnight UTC of that day, which a zone west of UTC reads as the
  evening of the day before, and a zone at or east of UTC as that same day.
\<close>

definition newDate :: "(Date \<Rightarrow> int) \<Rightarrow> Date \<Rightarrow> Date" where
  "newDate zone isoDay = (if zone isoDay < 0 then prevDay isoDay else isoDay)"

text \<open>\<^verbatim>\<open>startScript\<close>, lines 913 to 960, as the list of its windows: \<open>zone\<close> is the zone
  of the process, \<open>arg2\<close> and \<open>arg3\<close> the days named by the two arguments.\<close>

definition startScriptWindows ::
  "(Date \<Rightarrow> int) \<Rightarrow> Date \<Rightarrow> Date \<Rightarrow> (Date \<times> Date) list" where
  "startScriptWindows zone arg2 arg3 =
     (let startDate = newDate zone arg2;
          endDate = newDate zone arg3;
          totalMonths = differenceInCalendarMonths endDate startDate + 1
      in windowsFrom 0 totalMonths startDate endDate)"

text \<open>The order of calendar days, and the days a window covers.\<close>

definition dateLess :: "Date \<Rightarrow> Date \<Rightarrow> bool" where
  "dateLess a b =
     (dt_year a < dt_year b \<or>
      (dt_year a = dt_year b \<and>
        (dt_month a < dt_month b \<or> (dt_month a = dt_month b \<and> dt_day a < dt_day b))))"

definition dateLe :: "Date \<Rightarrow> Date \<Rightarrow> bool" where
  "dateLe a b = (dateLess a b \<or> a = b)"

definition daysOf :: "Date \<times> Date \<Rightarrow> Date set" where
  "daysOf w = {d. validDate d \<and> dateLe (fst w) d \<and> dateLe d (snd w)}"

definition lastDayOfMonth :: "Date \<Rightarrow> Date" where
  "lastDayOfMonth d = d\<lparr>dt_day := getDaysInMonth d\<rparr>"

text \<open>Consecutive windows: each but the last ends on the last day of the month it starts
  in, and the next one starts the day after.\<close>

fun contiguous :: "(Date \<times> Date) list \<Rightarrow> bool" where
  "contiguous [] = True"
| "contiguous [w] = True"
| "contiguous (w1 # w2 # ws) =
     (snd w1 = lastDayOfMonth (fst w1) \<and> fst w2 = addDays (snd w1) 1 \<and> contiguous (w2 # ws))"

section \<open>Notions used to state the properties\<close>

text \<open>The name of the first location with a given id, empty when there is none or it has
  no name.\<close>

definition locationName :: "Location list \<Rightarrow> string option \<Rightarrow> string" where
  "locationName locations i =
     orElse (Option.bind (find (\<lambda>l. loc_id l = i) locations) loc_name) []"

text \<open>The id that a \<open>partOf\<close> reference is resolved to: the reference without its first
  \<open>Location/\<close>, and the text \<open>undefined\<close> (\<^verbatim>\<open>String(undefined)\<close>) when there is no
  reference.\<close>

definition parentId :: "Reference option \<Rightarrow> string" where
  "parentId p =
     String (map_option (\<lambda>x. replace x ''Location/'' []) (Option.bind p ref_reference))"

text \<open>The fixed table of observation fields: the code each field is matched by, the rule
  that reads its value, and the field of the bag it is stored in.\<close>

datatype obsField =
    F_causeOfDeathMethod | F_birthPluralityOfPregnancy | F_bodyWeightMeasured
  | F_birthAttendantTitle | F_uncertifiedMannerOfDeath | F_verbalAutopsyDescription
  | F_causeOfDeathEstablished | F_causeOfDeath | F_numMaleDependentsOnDeceased
  | F_numFemaleDependentsOnDeceased | F_presentAtBirthReg

fun fieldCode :: "obsField \<Rightarrow> string" where
  "fieldCode F_causeOfDeathMethod = CAUSE_OF_DEATH_METHOD"
| "fieldCode F_birthPluralityOfPregnancy = BIRTH_PLURALITY_OF_PREGNANCY"
| "fieldCode F_bodyWeightMeasured = BODY_WEIGHT_MEASURED"
| "fieldCode F_birthAttendantTitle = BIRTH_ATTENDANT_TITLE"
| "fieldCode F_uncertifiedMannerOfDeath = UNCERTIFIED_MANNER_OF_DEATH"
| "fieldCode F_verbalAutopsyDescription = VERBAL_AUTOPSY_DESCRIPTION"
| "fieldCode F_causeOfDeathEstablished = CAUSE_OF_DEATH_ESTABLISHED"
| "fieldCode F_causeOfDeath = CAUSE_OF_DEATH"
| "fieldCode F_numMaleDependentsOnDeceased = NUM_MALE_DEPENDENTS_ON_DECEASED"
| "fieldCode F_numFemaleDependentsOnDeceased = NUM_FEMALE_DEPENDENTS_ON_DECEASED"
| "fieldCode F_presentAtBirthReg = PRESENT_AT_BIRTH_REG"

fun fieldRule :: "obsField \<Rightarrow> Observation \<Rightarrow> error + string" where
  "fieldRule F_causeOfDeathMethod = codedValue"
| "fieldRule F_birthPluralityOfPregnancy = quantityValue"
| "fieldRule F_bodyWeightMeasured = quantityWithUnit"
| "fieldRule F_birthAttendantTitle = stringValue"
| "fieldRule F_uncertifiedMannerOfDeath = codedValue"
| "fieldRule F_verbalAutopsyDescription = stringValue"
| "fieldRule F_causeOfDeathEstablished = codedValue"
| "fieldRule F_causeOfDeath = codedValue"
| "fieldRule F_numMaleDependentsOnDeceased = stringValue"
| "fieldRule F_numFemaleDependentsOnDeceased = stringValue"
| "fieldRule F_presentAtBirthReg = stringValue"

fun fieldOf :: "obsField \<Rightarrow> IObservation \<Rightarrow> string" where
  "fieldOf F_causeOfDeathMethod = o_causeOfDeathMethod"
| "fieldOf F_birthPluralityOfPregnancy = o_birthPluralityOfPregnancy"
| "fieldOf F_bodyWeightMeasured = o_bodyWeightMeasured"
| "fieldOf F_birthAttendantTitle = o_birthAttendantTitle"
| "fieldOf F_uncertifiedMannerOfDeath = o_uncertifiedMannerOfDeath"
| "fieldOf F_verbalAutopsyDescription = o_verbalAutopsyDescription"
| "fieldOf F_causeOfDeathEstablished = o_causeOfDeathEstablished"
| "fieldOf F_causeOfDeath = o_causeOfDeath"
| "fieldOf F_numMaleDependentsOnDeceased = o_numMaleDependentsOnDeceased"
| "fieldOf F_numFemaleDependentsOnDeceased = o_numFemaleDependentsOnDeceased"
| "fieldOf F_presentAtBirthReg = o_presentAtBirthReg"

text \<open>An observation matches a code when \<^verbatim>\<open>findCodeInObservation\<close> returns it.\<close>

definition matches :: "string \<Rightarrow> Observation \<Rightarrow> bool" where
  "matches c ob = (findCodeInObservation ob c = Inr (Some ob))"



text \<open>The month of a date counted from year 0, and a number that orders valid dates as the
  calendar does.\<close>

definition monthIndex :: "Date \<Rightarrow> int" where
  "monthIndex d = dt_year d * 12 + (dt_month d - 1)"

definition dateKey :: "Date \<Rightarrow> int" where
  "dateKey d = monthIndex d * 32 + dt_day d"

definition mkDate :: "int \<Rightarrow> int \<Rightarrow> int \<Rightarrow> Date" where
  "mkDate y m d = \<lparr>dt_year = y, dt_month = m, dt_day = d\<rparr>"

subsection \<open>Example documents\<close>

definition refTo :: "string \<Rightarrow> Reference" where
  "refTo s = \<lparr>ref_reference = Some s\<rparr>"

definition coded :: "string \<Rightarrow> CodeableConcept" where
  "coded c = \<lparr>cc_coding = Some [\<lparr>coding_code = Some c\<rparr>], cc_text = None\<rparr>"

definition sectionOf :: "string \<Rightarrow> string \<Rightarrow> Section" where
  "sectionOf title r = \<lparr>sec_title = Some title, sec_entry = Some [refTo r]\<rparr>"

definition locationOf :: "string \<Rightarrow> string \<Rightarrow> string \<Rightarrow> string \<Rightarrow> Location" where
  "locationOf i n t parent =
     \<lparr>loc_id = Some i, loc_name = Some n, loc_type = Some (coded t),
      loc_partOf = Some (refTo parent),
      loc_address = Some \<lparr>addr_city = Some ''Town'', addr_district = Some ''d2'',
                          addr_state = Some ''s2''\<rparr>\<rparr>"

definition exampleLocations :: "Location list" where
  "exampleLocations =
     [locationOf ''s1'' ''Central'' ''ADMIN_STRUCTURE'' ''Location/0'',
      locationOf ''d1'' ''Ibombo'' ''ADMIN_STRUCTURE'' ''Location/s1'',
      locationOf ''s2'' ''Sulaka'' ''ADMIN_STRUCTURE'' ''Location/0'',
      locationOf ''d2'' ''Isamba'' ''ADMIN_STRUCTURE'' ''Location/s2'',
      locationOf ''f1'' ''Ibombo Health Post'' ''HEALTH_FACILITY'' ''Location/d1'',
      locationOf ''o1'' ''Ibombo Office'' ''CRVS_OFFICE'' ''Location/d1'']"

definition patientOf :: "string \<Rightarrow> string \<Rightarrow> string \<Rightarrow> Patient" where
  "patientOf i g b =
     \<lparr>pat_id = Some i, pat_gender = Some g, pat_birthDate = Some b,
      pat_deceasedDateTime = None, pat_maritalStatus = None,
      pat_multipleBirthInteger = None, pat_extension = None,
      pat_address = Some [\<lparr>addr_city = Some ''Village'', addr_district = Some ''d2'',
                           addr_state = Some ''s2''\<rparr>]\<rparr>"

text \<open>A zone five hours west of UTC all the year.\<close>

definition utcMinus5 :: "Date \<Rightarrow> int" where
  "utcMinus5 d = - 300"


definition codedObservation :: "string \<Rightarrow> string \<Rightarrow> string \<Rightarrow> Observation" where
  "codedObservation encounterRef c v =
     \<lparr>obs_context = Some (refTo encounterRef), obs_code = coded c,
      obs_valueCodeableConcept = Some (coded v), obs_valueQuantity = None,
      obs_valueString = None\<rparr>"

definition taskOf :: "string \<Rightarrow> string \<Rightarrow> Task" where
  "taskOf focus status =
     \<lparr>task_focus = Some (refTo focus), task_businessStatus = Some (coded status),
      task_extension = Some [\<lparr>ext_url = Some officeLocationExtURL, ext_valueString = None,
                              ext_valueReference = Some (refTo ''Location/o1'')\<rparr>]\<rparr>"

definition exampleStore :: Store where
  "exampleStore =
     \<lparr>st_patients = [patientOf ''p1'' ''male'' ''1950-05-01'',
                     patientOf ''p2'' ''female'' ''1980-01-01'',
                     patientOf ''p3'' ''male'' ''2022-02-01''],
      st_encounters = [\<lparr>enc_id = Some ''e1'',
                         enc_location = Some [\<lparr>el_location = refTo ''Location/f1''\<rparr>]\<rparr>],
      st_observations = [codedObservation ''Encounter/e1'' CAUSE_OF_DEATH ''A00'',
                         codedObservation ''Encounter/e1'' CAUSE_OF_DEATH_ESTABLISHED ''true'',
                         codedObservation ''Encounter/e1'' CAUSE_OF_DEATH ''B99''],
      st_relatedPersons = [\<lparr>rp_id = Some ''r1'', rp_patient = Some (refTo ''Patient/p2''),
                             rp_relationship = Some (coded ''SON'')\<rparr>],
      st_tasks = [taskOf ''Composition/c1'' ''REGISTERED'',
                  taskOf ''Composition/c2'' ''DECLARED'',
                  taskOf ''Composition/c3'' ''REGISTERED'',
                  taskOf ''Composition/c4'' ''CERTIFIED'']\<rparr>"

definition compositionOf :: "string \<Rightarrow> string \<Rightarrow> Section list \<Rightarrow> Composition" where
  "compositionOf i t secs =
     \<lparr>comp_id = Some i, comp_title = Some t, comp_date = Some ''2022-02-03T10:00:00.000Z'',
      comp_section = Some secs\<rparr>"

definition deathComposition :: "string \<Rightarrow> Composition" where
  "deathComposition i = compositionOf i ''Death Declaration''
     [sectionOf ''Deceased details'' ''Patient/p1'',
      sectionOf ''Informant's details'' ''RelatedPerson/r1'',
      sectionOf ''Death encounter'' ''Encounter/e1'',
      sectionOf ''Certificates'' ''DocumentReference/x1'']"

definition birthCompositionNoEncounter :: Composition where
  "birthCompositionNoEncounter = compositionOf ''c3'' ''Birth Declaration''
     [sectionOf ''Child details'' ''Patient/p3'',
      sectionOf ''Informant's details'' ''RelatedPerson/r1'']"


definition exampleWriters :: Writers where
  "exampleWriters = \<lparr>birthCSVWriter = createBirthDeclarationCSVWriter [],
                     deathCSVWriter = createDeathDeclarationCSVWriter []\<rparr>"






section \<open>Properties\<close>

subsection \<open>Rows and the lines written\<close>

lemma map_of_columns:
  "distinct (map fst obj) \<Longrightarrow> map (map_of obj) (map fst obj) = map (\<lambda>kv. Some (snd kv)) obj"
proof (induction obj)
  case Nil
  then show ?case by simp
next
  case (Cons kv obj)
  have "map (map_of (kv # obj)) (map fst obj) = map (map_of obj) (map fst obj)"
    using Cons.prems by (cases kv) (force simp: image_iff)
  with Cons show ?case by simp
qed

lemma birth_row_keys: "map fst (birthRowObject r) = birthColumns"
  by (simp add: birthRowObject_def birthColumns_def)

lemma death_row_keys: "map fst (deathRowObject r) = deathColumns"
  by (simp add: deathRowObject_def deathColumns_def)

lemma birth_columns_distinct: "distinct birthColumns"
  by (simp add: birthColumns_def)

lemma death_columns_distinct: "distinct deathColumns"
  by (simp add: deathColumns_def)

lemma birth_line:
  "map (map_of (birthRowObject r)) birthColumns = map (\<lambda>kv. Some (snd kv)) (birthRowObject r)"
  using map_of_columns[of "birthRowObject r"] birth_columns_distinct
  by (simp only: birth_row_keys)

lemma death_line:
  "map (map_of (deathRowObject r)) deathColumns = map (\<lambda>kv. Some (snd kv)) (deathRowObject r)"
  using map_of_columns[of "deathRowObject r"] death_columns_distinct
  by (simp only: death_row_keys)


lemma death_row_empty:
  "makeDeathRow (emptyFullComposition\<lparr>fc_event := ev\<rparr>) = defaultDeathRow\<lparr>d_causeOfDeathEstablished := ''No''\<rparr>"
  by (simp add: makeDeathRow_def emptyFullComposition_def defaultDeathRow_def fieldOr_def orElse_def truthy_def)

lemma birth_row_empty:
  "makeBirthRow (emptyFullComposition\<lparr>fc_event := ev\<rparr>) = defaultBirthRow"
  by (simp add: makeBirthRow_def emptyFullComposition_def defaultBirthRow_def fieldOr_def orElse_def)




subsection \<open>The header lines\<close>

lemma header_line_birth:
  "headerLine (createBirthDeclarationCSVWriter ls) = map (map_of birthCSVHeader) birthColumns"
  by (simp add: headerLine_def createBirthDeclarationCSVWriter_def writeRecords_def)

lemma header_line_death:
  "headerLine (createDeathDeclarationCSVWriter ls) = map (map_of deathCSVHeader) deathColumns"
  by (simp add: headerLine_def createDeathDeclarationCSVWriter_def writeRecords_def)

lemma writer_birth:
  "createBirthDeclarationCSVWriter ls =
     \<lparr>cw_header = birthColumns, cw_lines = ls @ [map (map_of birthCSVHeader) birthColumns]\<rparr>"
  by (simp add: createBirthDeclarationCSVWriter_def writeRecords_def)

lemma writer_death:
  "createDeathDeclarationCSVWriter ls =
     \<lparr>cw_header = deathColumns, cw_lines = ls @ [map (map_of deathCSVHeader) deathColumns]\<rparr>"
  by (simp add: createDeathDeclarationCSVWriter_def writeRecords_def)

lemma birth_labels_upper: "list_all upperLabel (map (map_of birthCSVHeader) birthColumns)"
  by code_simp

lemma death_labels_upper: "list_all upperLabel (map (map_of deathCSVHeader) deathColumns)"
  by code_simp

lemma birth_labels_not_keys:
  "list_all (\<lambda>c. c \<notin> set (map (\<lambda>k. Some (Str k)) birthColumns))
     (map (map_of birthCSVHeader) birthColumns)"
  by code_simp

lemma death_labels_not_keys:
  "list_all (\<lambda>c. c \<notin> set (map (\<lambda>k. Some (Str k)) deathColumns))
     (map (map_of deathCSVHeader) deathColumns)"
  by code_simp

lemma birth_columns_facts: "length birthColumns = 34 \<and> distinct birthColumns"
  by (simp add: birthColumns_def)

lemma death_columns_facts: "length deathColumns = 23 \<and> distinct deathColumns"
  by (simp add: deathColumns_def)

text \<open>
  C3, as the code has it: the header written to the birth file has 34 columns (not 32)
  and the one written to the death file has 23; the columns are fixed, ordered and
  pairwise different; each header line is appended once to what the file holds; every
  label is a non-empty text of capital letters and spaces, and no label is a column key.
\<close>

theorem C3_header_columns:
  "length (headerLine (createBirthDeclarationCSVWriter ls)) = 34
   \<and> length (headerLine (createDeathDeclarationCSVWriter ls')) = 23
   \<and> cw_header (createBirthDeclarationCSVWriter ls) = birthColumns
   \<and> cw_header (createDeathDeclarationCSVWriter ls') = deathColumns
   \<and> distinct birthColumns \<and> distinct deathColumns
   \<and> cw_lines (createBirthDeclarationCSVWriter ls)
       = ls @ [map (map_of birthCSVHeader) birthColumns]
   \<and> cw_lines (createDeathDeclarationCSVWriter ls')
       = ls' @ [map (map_of deathCSVHeader) deathColumns]
   \<and> list_all upperLabel (headerLine (createBirthDeclarationCSVWriter ls))
   \<and> list_all upperLabel (headerLine (createDeathDeclarationCSVWriter ls'))
   \<and> list_all (\<lambda>c. c \<notin> set (map (\<lambda>k. Some (Str k)) birthColumns))
        (headerLine (createBirthDeclarationCSVWriter ls))
   \<and> list_all (\<lambda>c. c \<notin> set (map (\<lambda>k. Some (Str k)) deathColumns))
        (headerLine (createDeathDeclarationCSVWriter ls'))"
  unfolding header_line_birth header_line_death
  using birth_labels_upper death_labels_upper birth_labels_not_keys death_labels_not_keys
    birth_columns_facts death_columns_facts
  by (simp only: writer_birth writer_death CsvWriter.simps length_map simp_thms)

text \<open>C3 as stated fails: the birth header does not have 32 columns.\<close>

theorem C3_birth_header_not_32:
  "length (headerLine (createBirthDeclarationCSVWriter [])) \<noteq> 32"
  using birth_columns_facts by (simp add: header_line_birth)

subsection \<open>Patient snapshots\<close>




lemma no_task:
  assumes "getTaskDocByCompositionId st (''Composition/'' @ String (comp_id composition)) = []"
  shows "processComposition st locations ws composition = ws"
  using assms
  by (auto simp: processComposition_def tryComposition_def bindE_def elem0_def)

subsection \<open>Observation extraction\<close>

lemmas code_defs = CAUSE_OF_DEATH_METHOD_def BIRTH_PLURALITY_OF_PREGNANCY_def BODY_WEIGHT_MEASURED_def
  BIRTH_ATTENDANT_TITLE_def CAUSE_OF_DEATH_def UNCERTIFIED_MANNER_OF_DEATH_def
  VERBAL_AUTOPSY_DESCRIPTION_def CAUSE_OF_DEATH_ESTABLISHED_def NUM_MALE_DEPENDENTS_ON_DECEASED_def
  NUM_FEMALE_DEPENDENTS_ON_DECEASED_def PRESENT_AT_BIRTH_REG_def

lemma find_code_eq:
  "firstCode (Some (obs_code ob)) = Inr k \<Longrightarrow>
   findCodeInObservation ob c = Inr (if k = Some c then Some ob else None)"
  by (simp add: findCodeInObservation_def bindE_def)

lemma matches_eq:
  "firstCode (Some (obs_code ob)) = Inr k \<Longrightarrow> matches c ob = (k = Some c)"
  by (simp add: matches_def find_code_eq)

lemma step_needs_code:
  "observationStep obj ob = Inr obj' \<Longrightarrow> \<exists>k. firstCode (Some (obs_code ob)) = Inr k"
  by (cases "firstCode (Some (obs_code ob))")
     (simp_all add: observationStep_def findCodeInObservation_def bindE_def)

lemma step_field:
  assumes "observationStep obj ob = Inr obj'"
  shows "Inr (fieldOf f obj') = (if matches (fieldCode f) ob then fieldRule f ob else Inr (fieldOf f obj))"
proof -
  from step_needs_code[OF assms] obtain k where k: "firstCode (Some (obs_code ob)) = Inr k" by blast
  show ?thesis
  proof (cases k)
    case None
    with assms k show ?thesis
      by (simp add: matches_eq[OF k] observationStep_def find_code_eq[OF k] bindE_def assignIf_def)
  next
    case (Some c)
    consider "c = CAUSE_OF_DEATH_METHOD" | "c = BIRTH_PLURALITY_OF_PREGNANCY" | "c = BODY_WEIGHT_MEASURED"
      | "c = BIRTH_ATTENDANT_TITLE" | "c = UNCERTIFIED_MANNER_OF_DEATH" | "c = VERBAL_AUTOPSY_DESCRIPTION"
      | "c = CAUSE_OF_DEATH_ESTABLISHED" | "c = CAUSE_OF_DEATH" | "c = NUM_MALE_DEPENDENTS_ON_DECEASED"
      | "c = NUM_FEMALE_DEPENDENTS_ON_DECEASED" | "c = PRESENT_AT_BIRTH_REG"
      | "c \<notin> set [CAUSE_OF_DEATH_METHOD, BIRTH_PLURALITY_OF_PREGNANCY, BODY_WEIGHT_MEASURED,
           BIRTH_ATTENDANT_TITLE, UNCERTIFIED_MANNER_OF_DEATH, VERBAL_AUTOPSY_DESCRIPTION,
           CAUSE_OF_DEATH_ESTABLISHED, CAUSE_OF_DEATH, NUM_MALE_DEPENDENTS_ON_DECEASED,
           NUM_FEMALE_DEPENDENTS_ON_DECEASED, PRESENT_AT_BIRTH_REG]"
      by auto
    then show ?thesis
      using assms k Some
      by cases
        ((cases f),
         (auto simp add: matches_eq[OF k] observationStep_def find_code_eq[OF k] bindE_def
            assignIf_def code_defs stringValue_def quantityValue_def quantityWithUnit_def
            split: sum.splits)[11])+
  qed
qed


lemma find_snoc:
  "find P (xs @ [y]) = (case find P xs of None \<Rightarrow> (if P y then Some y else None) | Some x \<Rightarrow> Some x)"
  by (induction xs) simp_all

lemma forEach_field:
  "forEachE observationStep obj obs = Inr obj' \<Longrightarrow>
   Inr (fieldOf f obj') =
     (case find (matches (fieldCode f)) (rev obs) of
        None \<Rightarrow> Inr (fieldOf f obj)
      | Some ob \<Rightarrow> fieldRule f ob)"
proof (induction obs arbitrary: obj)
  case Nil
  then show ?case by simp
next
  case (Cons ob obs)
  from Cons.prems obtain o1 where o1: "observationStep obj ob = Inr o1"
    and rest: "forEachE observationStep o1 obs = Inr obj'"
    by (cases "observationStep obj ob") (simp_all add: bindE_def)
  from Cons.IH[OF rest] step_field[OF o1, of f] show ?case
    by (simp add: find_snoc split: option.splits)
qed

lemma empty_field: "fieldOf f emptyObservation = []"
  by (cases f) (simp_all add: emptyObservation_def)

text \<open>
  C2, as the code has it: whenever the extraction over a list of observations returns,
  every field of the fixed table holds the value its rule reads from the \<^emph>\<open>last\<close>
  observation of the list whose primary coding equals the field's code (the first match
  of the reversed list); a field that no observation matches stays the empty string.
\<close>

theorem C2_last_matching_observation:
  assumes "extractObservations observations = Inr observationObj"
  shows "Inr (fieldOf f observationObj) =
     (case find (matches (fieldCode f)) (rev observations) of
        None \<Rightarrow> Inr []
      | Some ob \<Rightarrow> fieldRule f ob)"
  using forEach_field[OF assms[unfolded extractObservations_def], of f]
  by (simp add: empty_field split: option.splits)

text \<open>The observations of the example store: two carry the cause-of-death code, and the
  later one, \<open>B99\<close>, is extracted.\<close>

theorem C2_last_matching_observation_witness:
  "extractObservations (st_observations exampleStore)
     = Inr (emptyObservation\<lparr>o_causeOfDeathEstablished := ''true'', o_causeOfDeath := ''B99''\<rparr>)
   \<and> Inr (fieldOf F_causeOfDeath
        (emptyObservation\<lparr>o_causeOfDeathEstablished := ''true'', o_causeOfDeath := ''B99''\<rparr>))
     = (case find (matches (fieldCode F_causeOfDeath)) (rev (st_observations exampleStore)) of
          None \<Rightarrow> Inr []
        | Some ob \<Rightarrow> fieldRule F_causeOfDeath ob)"
proof -
  have h: "extractObservations (st_observations exampleStore)
     = Inr (emptyObservation\<lparr>o_causeOfDeathEstablished := ''true'', o_causeOfDeath := ''B99''\<rparr>)"
    by code_simp
  from C2_last_matching_observation[OF h, of F_causeOfDeath] h show ?thesis by simp
qed

text \<open>C2 as stated fails: of two observations with the cause-of-death code, the first in
  the list carries \<open>A00\<close>, and the extracted value is \<open>B99\<close>, that of the later one.\<close>

theorem C2_first_match_counterexample:
  "find (matches CAUSE_OF_DEATH)
      [codedObservation ''Encounter/e1'' CAUSE_OF_DEATH ''A00'',
       codedObservation ''Encounter/e1'' CAUSE_OF_DEATH ''B99'']
     = Some (codedObservation ''Encounter/e1'' CAUSE_OF_DEATH ''A00'')
   \<and> codedValue (codedObservation ''Encounter/e1'' CAUSE_OF_DEATH ''A00'') = Inr ''A00''
   \<and> extractObservations
      [codedObservation ''Encounter/e1'' CAUSE_OF_DEATH ''A00'',
       codedObservation ''Encounter/e1'' CAUSE_OF_DEATH ''B99'']
     = Inr (emptyObservation\<lparr>o_causeOfDeath := ''B99''\<rparr>)"
  by code_simp

subsection \<open>The shape of the aggregate\<close>

lemma bindE_Inr:
  "bindE m f = Inr y \<Longrightarrow> \<exists>x. m = Inr x \<and> f x = Inr y"
  by (cases m) (simp_all add: bindE_def)













subsection \<open>Rows of the two files\<close>



text \<open>
  C8: when the task of a composition has a business status that is neither \<open>CERTIFIED\<close>
  nor \<open>REGISTERED\<close> (a different code, no code, or a status that cannot be read),
  processing the composition leaves both writers, and so both files, as they were.
\<close>

theorem C8_ineligible_status_writes_nothing:
  assumes "elem0 (getTaskDocByCompositionId st (''Composition/'' @ String (comp_id composition)))
             = Inr task"
    and "businessStatusOf task \<noteq> Inr (Some ''CERTIFIED'')"
    and "businessStatusOf task \<noteq> Inr (Some ''REGISTERED'')"
  shows "processComposition st locations ws composition = ws"
  using assms
  by (cases "businessStatusOf task") (auto simp: processComposition_def tryComposition_def bindE_def)

text \<open>The composition \<open>c2\<close> of the example store, whose task is \<open>DECLARED\<close>.\<close>

theorem C8_ineligible_status_writes_nothing_witness:
  "elem0 (getTaskDocByCompositionId exampleStore
       (''Composition/'' @ String (comp_id (deathComposition ''c2''))))
     = Inr (taskOf ''Composition/c2'' ''DECLARED'')
   \<and> businessStatusOf (taskOf ''Composition/c2'' ''DECLARED'') \<noteq> Inr (Some ''CERTIFIED'')
   \<and> businessStatusOf (taskOf ''Composition/c2'' ''DECLARED'') \<noteq> Inr (Some ''REGISTERED'')
   \<and> processComposition exampleStore exampleLocations exampleWriters (deathComposition ''c2'')
       = exampleWriters"
proof -
  have h1: "elem0 (getTaskDocByCompositionId exampleStore
       (''Composition/'' @ String (comp_id (deathComposition ''c2''))))
     = Inr (taskOf ''Composition/c2'' ''DECLARED'')"
    by code_simp
  have h2: "businessStatusOf (taskOf ''Composition/c2'' ''DECLARED'') \<noteq> Inr (Some ''CERTIFIED'')"
    by code_simp
  have h3: "businessStatusOf (taskOf ''Composition/c2'' ''DECLARED'') \<noteq> Inr (Some ''REGISTERED'')"
    by code_simp
  from C8_ineligible_status_writes_nothing[OF h1 h2 h3] h1 h2 h3 show ?thesis by blast
qed

text \<open>
  C9, as the code has it: for every aggregate the row object has exactly the columns of
  the header, in header order, and the line written has a value in every column (no
  \<open>undefined\<close>). A row built from the empty aggregate is the default row, except that
  \<open>causeOfDeathEstablished\<close> of a death row is \<open>No\<close>; and part by part, the columns of
  an absent child, mother, father, deceased, informant, observation bag or location hold
  the empty string (0 for \<open>childOrd\<close>, \<open>No\<close> for \<open>causeOfDeathEstablished\<close>) while
  the other columns are unaffected.
\<close>

theorem C9_rows_complete:
  "map fst (birthRowObject (makeBirthRow fc)) = birthColumns
   \<and> map fst (deathRowObject (makeDeathRow fc)) = deathColumns
   \<and> map (map_of (birthRowObject (makeBirthRow fc))) birthColumns
       = map (\<lambda>kv. Some (snd kv)) (birthRowObject (makeBirthRow fc))
   \<and> map (map_of (deathRowObject (makeDeathRow fc))) deathColumns
       = map (\<lambda>kv. Some (snd kv)) (deathRowObject (makeDeathRow fc))
   \<and> None \<notin> set (map (map_of (birthRowObject (makeBirthRow fc))) birthColumns)
   \<and> None \<notin> set (map (map_of (deathRowObject (makeDeathRow fc))) deathColumns)
   \<and> makeBirthRow (emptyFullComposition\<lparr>fc_event := ev\<rparr>) = defaultBirthRow
   \<and> makeDeathRow (emptyFullComposition\<lparr>fc_event := ev\<rparr>)
       = defaultDeathRow\<lparr>d_causeOfDeathEstablished := ''No''\<rparr>
   \<and> makeBirthRow (fc\<lparr>fc_child := None\<rparr>)
       = (makeBirthRow fc)\<lparr>b_childGen := [], b_childDOB := [], b_childOrd := 0\<rparr>
   \<and> makeBirthRow (fc\<lparr>fc_mother := None\<rparr>)
       = (makeBirthRow fc)\<lparr>b_motherDOB := [], b_motherMaritalStatus := [],
            b_motherOccupation := [], b_motherEducationalAttainment := [], b_motherCity := [],
            b_motherDistrict := [], b_motherState := []\<rparr>
   \<and> makeBirthRow (fc\<lparr>fc_father := None\<rparr>)
       = (makeBirthRow fc)\<lparr>b_fatherDOB := [], b_fatherMaritalStatus := [],
            b_fatherOccupation := [], b_fatherEducationalAttainment := [], b_fatherCity := [],
            b_fatherDistrict := [], b_fatherState := []\<rparr>
   \<and> makeBirthRow (fc\<lparr>fc_informant := None\<rparr>)
       = (makeBirthRow fc)\<lparr>b_informantDOB := [], b_informantMaritalStatus := [],
            b_informantOccupation := [], b_informantEducationalAttainment := [],
            b_informantCity := [], b_informantDistrict := [], b_informantState := [],
            b_informantRelationship := []\<rparr>
   \<and> makeBirthRow (fc\<lparr>fc_observations := None\<rparr>)
       = (makeBirthRow fc)\<lparr>b_birthPluralityOfPregnancy := [], b_bodyWeightMeasured := [],
            b_birthAttendantTitle := [], b_presentAtBirthReg := []\<rparr>
   \<and> makeBirthRow (fc\<lparr>fc_officeLocation := None, fc_healthCenter := None,
          fc_eventDistrict := None, fc_eventState := None, fc_eventCity := None\<rparr>)
       = (makeBirthRow fc)\<lparr>b_birthCity := [], b_birthState := [], b_birthDistrict := [],
            b_healthCenter := [], b_officeLocation := []\<rparr>
   \<and> makeDeathRow (fc\<lparr>fc_deceased := None\<rparr>)
       = (makeDeathRow fc)\<lparr>d_deceasedGen := [], d_deceasedDOB := [],
            d_deceasedMaritalStatus := [], d_deceasedDate := [], d_deathCity := [],
            d_deathState := [], d_deathDistrict := []\<rparr>
   \<and> makeDeathRow (fc\<lparr>fc_informant := None\<rparr>)
       = (makeDeathRow fc)\<lparr>d_informantDOB := [], d_informantMaritalStatus := [],
            d_informantOccupation := [], d_informantCity := [], d_informantDistrict := [],
            d_informantState := [], d_informantRelationship := []\<rparr>
   \<and> makeDeathRow (fc\<lparr>fc_observations := None\<rparr>)
       = (makeDeathRow fc)\<lparr>d_uncertifiedMannerOfDeath := [], d_verbalAutopsyDescription := [],
            d_causeOfDeathMethod := [], d_causeOfDeathEstablished := ''No'', d_causeOfDeath := [],
            d_numMaleDependentsOnDeceased := [], d_numFemaleDependentsOnDeceased := []\<rparr>
   \<and> makeDeathRow (fc\<lparr>fc_officeLocation := None, fc_healthCenter := None\<rparr>)
       = (makeDeathRow fc)\<lparr>d_healthCenter := [], d_officeLocation := []\<rparr>"
proof -
  have lb: "None \<notin> set (map (map_of (birthRowObject r)) birthColumns)" for r
    unfolding birth_line by auto
  have ld: "None \<notin> set (map (map_of (deathRowObject r)) deathColumns)" for r
    unfolding death_line by auto
  have b1: "makeBirthRow (fc\<lparr>fc_child := None\<rparr>)
       = (makeBirthRow fc)\<lparr>b_childGen := [], b_childDOB := [], b_childOrd := 0\<rparr>"
    by (simp add: makeBirthRow_def fieldOr_def)
  have b2: "makeBirthRow (fc\<lparr>fc_mother := None\<rparr>)
       = (makeBirthRow fc)\<lparr>b_motherDOB := [], b_motherMaritalStatus := [],
            b_motherOccupation := [], b_motherEducationalAttainment := [], b_motherCity := [],
            b_motherDistrict := [], b_motherState := []\<rparr>"
    by (simp add: makeBirthRow_def fieldOr_def)
  have b3: "makeBirthRow (fc\<lparr>fc_father := None\<rparr>)
       = (makeBirthRow fc)\<lparr>b_fatherDOB := [], b_fatherMaritalStatus := [],
            b_fatherOccupation := [], b_fatherEducationalAttainment := [], b_fatherCity := [],
            b_fatherDistrict := [], b_fatherState := []\<rparr>"
    by (simp add: makeBirthRow_def fieldOr_def)
  have b4: "makeBirthRow (fc\<lparr>fc_informant := None\<rparr>)
       = (makeBirthRow fc)\<lparr>b_informantDOB := [], b_informantMaritalStatus := [],
            b_informantOccupation := [], b_informantEducationalAttainment := [],
            b_informantCity := [], b_informantDistrict := [], b_informantState := [],
            b_informantRelationship := []\<rparr>"
    by (simp add: makeBirthRow_def fieldOr_def orElse_def)
  have b5: "makeBirthRow (fc\<lparr>fc_observations := None\<rparr>)
       = (makeBirthRow fc)\<lparr>b_birthPluralityOfPregnancy := [], b_bodyWeightMeasured := [],
            b_birthAttendantTitle := [], b_presentAtBirthReg := []\<rparr>"
    by (simp add: makeBirthRow_def fieldOr_def)
  have b6: "makeBirthRow (fc\<lparr>fc_officeLocation := None, fc_healthCenter := None,
          fc_eventDistrict := None, fc_eventState := None, fc_eventCity := None\<rparr>)
       = (makeBirthRow fc)\<lparr>b_birthCity := [], b_birthState := [], b_birthDistrict := [],
            b_healthCenter := [], b_officeLocation := []\<rparr>"
    by (simp add: makeBirthRow_def orElse_def)
  have d1: "makeDeathRow (fc\<lparr>fc_deceased := None\<rparr>)
       = (makeDeathRow fc)\<lparr>d_deceasedGen := [], d_deceasedDOB := [],
            d_deceasedMaritalStatus := [], d_deceasedDate := [], d_deathCity := [],
            d_deathState := [], d_deathDistrict := []\<rparr>"
    by (simp add: makeDeathRow_def fieldOr_def)
  have d2: "makeDeathRow (fc\<lparr>fc_informant := None\<rparr>)
       = (makeDeathRow fc)\<lparr>d_informantDOB := [], d_informantMaritalStatus := [],
            d_informantOccupation := [], d_informantCity := [], d_informantDistrict := [],
            d_informantState := [], d_informantRelationship := []\<rparr>"
    by (simp add: makeDeathRow_def fieldOr_def orElse_def)
  have d3: "makeDeathRow (fc\<lparr>fc_observations := None\<rparr>)
       = (makeDeathRow fc)\<lparr>d_uncertifiedMannerOfDeath := [], d_verbalAutopsyDescription := [],
            d_causeOfDeathMethod := [], d_causeOfDeathEstablished := ''No'', d_causeOfDeath := [],
            d_numMaleDependentsOnDeceased := [], d_numFemaleDependentsOnDeceased := []\<rparr>"
    by (simp add: makeDeathRow_def fieldOr_def truthy_def)
  have d4: "makeDeathRow (fc\<lparr>fc_officeLocation := None, fc_healthCenter := None\<rparr>)
       = (makeDeathRow fc)\<lparr>d_healthCenter := [], d_officeLocation := []\<rparr>"
    by (simp add: makeDeathRow_def orElse_def)
  show ?thesis
    by (intro conjI birth_row_keys death_row_keys birth_line death_line lb ld birth_row_empty
        death_row_empty b1 b2 b3 b4 b5 b6 d1 d2 d3 d4)
qed

text \<open>C9 as stated fails: in the death row of the empty aggregate the column
  \<open>causeOfDeathEstablished\<close> is not the empty string, so the row is not the default row.\<close>

theorem C9_death_row_default_counterexample:
  "d_causeOfDeathEstablished (makeDeathRow (emptyFullComposition\<lparr>fc_event := Some Death\<rparr>)) \<noteq> []
   \<and> makeDeathRow (emptyFullComposition\<lparr>fc_event := Some Death\<rparr>) \<noteq> defaultDeathRow"
proof -
  have "d_causeOfDeathEstablished (makeDeathRow (emptyFullComposition\<lparr>fc_event := Some Death\<rparr>)) = ''No''"
    by (simp add: death_row_empty)
  moreover have "d_causeOfDeathEstablished defaultDeathRow = []"
    by (simp add: defaultDeathRow_def)
  ultimately show ?thesis by auto
qed

subsection \<open>Event location\<close>

lemma replace_prefix: "p \<noteq> [] \<Longrightarrow> replace (p @ s) p [] = s"
  by (cases p) (simp_all add: startsWith_def)

lemma partOf_id:
  "loc_partOf l = Some (refTo (p @ i)) \<Longrightarrow> p \<noteq> [] \<Longrightarrow>
   String (map_option (\<lambda>x. replace x p []) (Option.bind (loc_partOf l) ref_reference)) = i"
  by (simp add: refTo_def String_def replace_prefix)

lemma location_name_missing:
  "find (\<lambda>l. loc_id l = i) locations = None \<Longrightarrow> locationName locations i = []"
  by (simp add: locationName_def orElse_def)

lemma health_facility_partOf:
  "isLocationHealthFacility (leaf\<lparr>loc_partOf := p\<rparr>) = isLocationHealthFacility leaf"
  by (simp add: isLocationHealthFacility_def)

lemma health_facility_address:
  "isLocationHealthFacility (leaf\<lparr>loc_address := a\<rparr>) = isLocationHealthFacility leaf"
  by (simp add: isLocationHealthFacility_def)

lemma event_location_facility:
  assumes "isLocationHealthFacility leaf = Inr True"
  shows "setEventLocation leaf locations fc =
     Inr (fc\<lparr>fc_healthCenter := Some (orElse (loc_name leaf) []),
             fc_eventDistrict := Some (locationName locations
               (Some (String (map_option (\<lambda>x. replace x ''Location/'' [])
                  (Option.bind (loc_partOf leaf) ref_reference))))),
             fc_eventState := Some (locationName locations
               (Some (String (map_option (\<lambda>x. replace x ''Location/'' [])
                  (Option.bind (Option.bind
                     (find (\<lambda>l. loc_id l = Some (String (map_option (\<lambda>x. replace x ''Location/'' [])
                        (Option.bind (loc_partOf leaf) ref_reference)))) locations)
                     loc_partOf) ref_reference))))),
             fc_eventCity := Some (orElse (Option.bind (loc_address leaf) addr_city) [])\<rparr>)"
  using assms by (simp add: setEventLocation_def bindE_def Let_def locationName_def)

lemma event_location_other:
  assumes "isLocationHealthFacility leaf = Inr False"
  shows "setEventLocation leaf locations fc =
     Inr (fc\<lparr>fc_eventDistrict := Some (locationName locations
                (Option.bind (loc_address leaf) addr_district)),
             fc_eventState := Some (locationName locations
                (Option.bind (loc_address leaf) addr_state)),
             fc_eventCity := Some (orElse (Option.bind (loc_address leaf) addr_city) [])\<rparr>)"
  using assms by (simp add: setEventLocation_def bindE_def Let_def locationName_def)

text \<open>
  C7: let \<open>c\<close> be the type tag read from the leaf (\<^verbatim>\<open>type?.coding?.[0].code\<close>); when it can
  be read the resolution never fails. When the tag is \<open>HEALTH_FACILITY\<close> the name of the
  leaf is the health centre, the district is the first location whose id is the one the
  leaf's \<open>partOf\<close> resolves to, and the state is the first location whose id is the one
  the \<open>partOf\<close> of that district resolves to; in particular, when the leaf's \<open>partOf\<close> is
  \<open>Location/did\<close> the district is the location with id \<open>did\<close>, and when that location's
  \<open>partOf\<close> is \<open>Location/sid\<close> the state is the location with id \<open>sid\<close>. The result
  does not depend on the district and state of the leaf's address. When the tag is
  anything else, or absent, district and state are the first locations whose ids equal
  the district and state of the leaf's address, the health centre is left as it was, and
  the result does not depend on \<open>partOf\<close>. A location that is not found gives the empty
  name (an absent \<open>partOf\<close> is looked up under the id \<open>undefined\<close>). In both cases the
  city is that of the leaf's own address.
\<close>

theorem C7_location_hierarchy:
  assumes "firstCode (loc_type leaf) = Inr c"
  shows "\<exists>fc'. setEventLocation leaf locations fc = Inr fc'
     \<and> fc_eventCity fc' = Some (orElse (Option.bind (loc_address leaf) addr_city) [])
     \<and> (c = Some ''HEALTH_FACILITY'' \<longrightarrow>
          fc_healthCenter fc' = Some (orElse (loc_name leaf) [])
          \<and> fc_eventDistrict fc' =
              Some (locationName locations (Some (parentId (loc_partOf leaf))))
          \<and> fc_eventState fc' =
              Some (locationName locations (Some (parentId (Option.bind
                (find (\<lambda>l. loc_id l = Some (parentId (loc_partOf leaf))) locations)
                loc_partOf))))
          \<and> (\<forall>did. loc_partOf leaf = Some (refTo (''Location/'' @ did)) \<longrightarrow>
                fc_eventDistrict fc' = Some (locationName locations (Some did))
                \<and> (\<forall>d sid. find (\<lambda>l. loc_id l = Some did) locations = Some d \<longrightarrow>
                      loc_partOf d = Some (refTo (''Location/'' @ sid)) \<longrightarrow>
                      fc_eventState fc' = Some (locationName locations (Some sid))))
          \<and> (\<forall>x y. setEventLocation
                 (leaf\<lparr>loc_address := map_option (\<lambda>a. a\<lparr>addr_district := x, addr_state := y\<rparr>)
                                          (loc_address leaf)\<rparr>) locations fc = Inr fc'))
     \<and> (c \<noteq> Some ''HEALTH_FACILITY'' \<longrightarrow>
          fc_eventDistrict fc' =
            Some (locationName locations (Option.bind (loc_address leaf) addr_district))
          \<and> fc_eventState fc' =
            Some (locationName locations (Option.bind (loc_address leaf) addr_state))
          \<and> fc_healthCenter fc' = fc_healthCenter fc
          \<and> (\<forall>p. setEventLocation (leaf\<lparr>loc_partOf := p\<rparr>) locations fc = Inr fc'))
     \<and> (\<forall>i. find (\<lambda>l. loc_id l = i) locations = None \<longrightarrow> locationName locations i = [])
     \<and> (\<forall>i. parentId (Some (refTo (''Location/'' @ i))) = i)
     \<and> parentId None = ''undefined''"
proof (cases "c = Some ''HEALTH_FACILITY''")
  case True
  from assms True have hf: "isLocationHealthFacility leaf = Inr True"
    by (simp add: isLocationHealthFacility_def bindE_def)
  let ?fc' = "fc\<lparr>fc_healthCenter := Some (orElse (loc_name leaf) []),
             fc_eventDistrict := Some (locationName locations
               (Some (String (map_option (\<lambda>x. replace x ''Location/'' [])
                  (Option.bind (loc_partOf leaf) ref_reference))))),
             fc_eventState := Some (locationName locations
               (Some (String (map_option (\<lambda>x. replace x ''Location/'' [])
                  (Option.bind (Option.bind
                     (find (\<lambda>l. loc_id l = Some (String (map_option (\<lambda>x. replace x ''Location/'' [])
                        (Option.bind (loc_partOf leaf) ref_reference)))) locations)
                     loc_partOf) ref_reference))))),
             fc_eventCity := Some (orElse (Option.bind (loc_address leaf) addr_city) [])\<rparr>"
  have r: "setEventLocation leaf locations fc = Inr ?fc'"
    by (rule event_location_facility[OF hf])
  have addr: "setEventLocation
                 (leaf\<lparr>loc_address := map_option (\<lambda>a. a\<lparr>addr_district := x, addr_state := y\<rparr>)
                                          (loc_address leaf)\<rparr>) locations fc = Inr ?fc'" for x y
  proof -
    let ?leaf = "leaf\<lparr>loc_address := map_option (\<lambda>a. a\<lparr>addr_district := x, addr_state := y\<rparr>)
                                          (loc_address leaf)\<rparr>"
    have "isLocationHealthFacility ?leaf = Inr True"
      using hf by (simp add: health_facility_address)
    from event_location_facility[OF this, of locations fc] show ?thesis
      by (cases "loc_address leaf") simp_all
  qed
  have dist: "fc_eventDistrict ?fc' = Some (locationName locations (Some did))
        \<and> (\<forall>d sid. find (\<lambda>l. loc_id l = Some did) locations = Some d \<longrightarrow>
              loc_partOf d = Some (refTo (''Location/'' @ sid)) \<longrightarrow>
              fc_eventState ?fc' = Some (locationName locations (Some sid)))"
    if "loc_partOf leaf = Some (refTo (''Location/'' @ did))" for did
  proof -
    have i1: "String (map_option (\<lambda>x. replace x ''Location/'' [])
                (Option.bind (loc_partOf leaf) ref_reference)) = did"
      by (rule partOf_id[OF that]) simp
    have i2: "String (map_option (\<lambda>x. replace x ''Location/'' [])
                (Option.bind (Option.bind (Some d) loc_partOf) ref_reference)) = sid"
      if "loc_partOf d = Some (refTo (''Location/'' @ sid))" for d sid
      using partOf_id[OF that] by simp
    have e1: "fc_eventDistrict ?fc' = Some (locationName locations
               (Some (String (map_option (\<lambda>x. replace x ''Location/'' [])
                  (Option.bind (loc_partOf leaf) ref_reference)))))"
      by simp
    have e2: "fc_eventState ?fc' = Some (locationName locations
               (Some (String (map_option (\<lambda>x. replace x ''Location/'' [])
                  (Option.bind (Option.bind
                     (find (\<lambda>l. loc_id l = Some (String (map_option (\<lambda>x. replace x ''Location/'' [])
                        (Option.bind (loc_partOf leaf) ref_reference)))) locations)
                     loc_partOf) ref_reference)))))"
      by simp
    show ?thesis
    proof (intro conjI allI impI)
      show "fc_eventDistrict ?fc' = Some (locationName locations (Some did))"
        using e1 unfolding i1 .
      fix d sid
      assume f: "find (\<lambda>l. loc_id l = Some did) locations = Some d"
        and p: "loc_partOf d = Some (refTo (''Location/'' @ sid))"
      show "fc_eventState ?fc' = Some (locationName locations (Some sid))"
        using e2 unfolding i1 f i2[OF p] .
    qed
  qed
  have pid: "parentId (Some (refTo (''Location/'' @ i))) = i" for i
    using partOf_id[of "\<lparr>loc_id = None, loc_name = None, loc_type = None,
        loc_partOf = Some (refTo (''Location/'' @ i)), loc_address = None\<rparr>" "''Location/''" i]
    by (simp add: parentId_def)
  have pnone: "parentId None = ''undefined''" by (simp add: parentId_def String_def)
  have gen: "fc_eventDistrict ?fc' =
              Some (locationName locations (Some (parentId (loc_partOf leaf))))
          \<and> fc_eventState ?fc' =
              Some (locationName locations (Some (parentId (Option.bind
                (find (\<lambda>l. loc_id l = Some (parentId (loc_partOf leaf))) locations)
                loc_partOf))))"
    by (simp add: parentId_def)
  from r addr dist gen pid pnone True show ?thesis
    by (simp add: location_name_missing)
next
  case False
  from assms False have hf: "isLocationHealthFacility leaf = Inr False"
    by (simp add: isLocationHealthFacility_def bindE_def)
  let ?fc' = "fc\<lparr>fc_eventDistrict := Some (locationName locations
                (Option.bind (loc_address leaf) addr_district)),
             fc_eventState := Some (locationName locations
                (Option.bind (loc_address leaf) addr_state)),
             fc_eventCity := Some (orElse (Option.bind (loc_address leaf) addr_city) [])\<rparr>"
  have r: "setEventLocation leaf locations fc = Inr ?fc'"
    by (rule event_location_other[OF hf])
  have part: "setEventLocation (leaf\<lparr>loc_partOf := p\<rparr>) locations fc = Inr ?fc'" for p
  proof -
    have "isLocationHealthFacility (leaf\<lparr>loc_partOf := p\<rparr>) = Inr False"
      using hf by (simp add: health_facility_partOf)
    from event_location_other[OF this, of locations fc] show ?thesis by simp
  qed
  have pid: "parentId (Some (refTo (''Location/'' @ i))) = i" for i
    using partOf_id[of "\<lparr>loc_id = None, loc_name = None, loc_type = None,
        loc_partOf = Some (refTo (''Location/'' @ i)), loc_address = None\<rparr>" "''Location/''" i]
    by (simp add: parentId_def)
  have pnone: "parentId None = ''undefined''" by (simp add: parentId_def String_def)
  from r part pid pnone False show ?thesis
    by (simp add: location_name_missing)
qed

text \<open>
  The health post of the example locations lies in Ibombo, which lies in Central, although
  its address names Isamba and Sulaka; the registration office, whose \<open>partOf\<close> is the
  same Ibombo, is placed by its address in Isamba and Sulaka, and names no health centre.
\<close>

theorem C7_location_hierarchy_witness:
  "firstCode (loc_type
      (locationOf ''f1'' ''Ibombo Health Post'' ''HEALTH_FACILITY'' ''Location/d1''))
     = Inr (Some ''HEALTH_FACILITY'')
   \<and> (\<exists>fc'. setEventLocation
         (locationOf ''f1'' ''Ibombo Health Post'' ''HEALTH_FACILITY'' ''Location/d1'')
         exampleLocations emptyFullComposition = Inr fc'
       \<and> fc_healthCenter fc' = Some ''Ibombo Health Post''
       \<and> fc_eventCity fc' = Some ''Town''
       \<and> fc_eventDistrict fc' = Some ''Ibombo''
       \<and> fc_eventState fc' = Some ''Central'')
   \<and> firstCode (loc_type
      (locationOf ''o1'' ''Ibombo Office'' ''CRVS_OFFICE'' ''Location/d1''))
     = Inr (Some ''CRVS_OFFICE'')
   \<and> Some ''CRVS_OFFICE'' \<noteq> Some ''HEALTH_FACILITY''
   \<and> (\<exists>fc'. setEventLocation
         (locationOf ''o1'' ''Ibombo Office'' ''CRVS_OFFICE'' ''Location/d1'')
         exampleLocations emptyFullComposition = Inr fc'
       \<and> fc_healthCenter fc' = None
       \<and> fc_eventCity fc' = Some ''Town''
       \<and> fc_eventDistrict fc' = Some ''Isamba''
       \<and> fc_eventState fc' = Some ''Sulaka'')"
proof -
  let ?leaf = "locationOf ''f1'' ''Ibombo Health Post'' ''HEALTH_FACILITY'' ''Location/d1''"
  let ?off = "locationOf ''o1'' ''Ibombo Office'' ''CRVS_OFFICE'' ''Location/d1''"
  let ?d = "locationOf ''d1'' ''Ibombo'' ''ADMIN_STRUCTURE'' ''Location/s1''"
  have h: "firstCode (loc_type ?leaf) = Inr (Some ''HEALTH_FACILITY'')" by code_simp
  have p1: "loc_partOf ?leaf = Some (refTo (''Location/'' @ ''d1''))" by code_simp
  have p2: "find (\<lambda>l. loc_id l = Some ''d1'') exampleLocations = Some ?d" by code_simp
  have p3: "loc_partOf ?d = Some (refTo (''Location/'' @ ''s1''))" by code_simp
  have n1: "locationName exampleLocations (Some ''d1'') = ''Ibombo''" by code_simp
  have n2: "locationName exampleLocations (Some ''s1'') = ''Central''" by code_simp
  have c: "orElse (Option.bind (loc_address ?leaf) addr_city) [] = ''Town''" by code_simp
  have nm: "orElse (loc_name ?leaf) [] = ''Ibombo Health Post''" by code_simp
  from C7_location_hierarchy[OF h, of exampleLocations emptyFullComposition]
  obtain fc' where r: "setEventLocation ?leaf exampleLocations emptyFullComposition = Inr fc'"
    and city: "fc_eventCity fc' = Some (orElse (Option.bind (loc_address ?leaf) addr_city) [])"
    and hc: "fc_healthCenter fc' = Some (orElse (loc_name ?leaf) [])"
    and rest: "\<forall>did. loc_partOf ?leaf = Some (refTo (''Location/'' @ did)) \<longrightarrow>
                fc_eventDistrict fc' = Some (locationName exampleLocations (Some did))
                \<and> (\<forall>d sid. find (\<lambda>l. loc_id l = Some did) exampleLocations = Some d \<longrightarrow>
                      loc_partOf d = Some (refTo (''Location/'' @ sid)) \<longrightarrow>
                      fc_eventState fc' = Some (locationName exampleLocations (Some sid)))"
    by blast
  from rest p1 p2 p3 have "fc_eventDistrict fc' = Some (locationName exampleLocations (Some ''d1''))"
    and "fc_eventState fc' = Some (locationName exampleLocations (Some ''s1''))"
    by blast+
  with r city hc have facility: "\<exists>fc'. setEventLocation ?leaf exampleLocations emptyFullComposition = Inr fc'
       \<and> fc_healthCenter fc' = Some ''Ibombo Health Post''
       \<and> fc_eventCity fc' = Some ''Town''
       \<and> fc_eventDistrict fc' = Some ''Ibombo''
       \<and> fc_eventState fc' = Some ''Central''"
    unfolding n1 n2 c nm by blast
  have o: "firstCode (loc_type ?off) = Inr (Some ''CRVS_OFFICE'')" by code_simp
  have ne: "Some ''CRVS_OFFICE'' \<noteq> Some ''HEALTH_FACILITY''" by code_simp
  have m1: "locationName exampleLocations (Option.bind (loc_address ?off) addr_district)
              = ''Isamba''" by code_simp
  have m2: "locationName exampleLocations (Option.bind (loc_address ?off) addr_state)
              = ''Sulaka''" by code_simp
  have oc: "orElse (Option.bind (loc_address ?off) addr_city) [] = ''Town''" by code_simp
  have e: "fc_healthCenter emptyFullComposition = None" by code_simp
  from C7_location_hierarchy[OF o, of exampleLocations emptyFullComposition] ne
  obtain fc'' where r': "setEventLocation ?off exampleLocations emptyFullComposition = Inr fc''"
    and city': "fc_eventCity fc'' = Some (orElse (Option.bind (loc_address ?off) addr_city) [])"
    and d': "fc_eventDistrict fc'' =
            Some (locationName exampleLocations (Option.bind (loc_address ?off) addr_district))"
    and s': "fc_eventState fc'' =
            Some (locationName exampleLocations (Option.bind (loc_address ?off) addr_state))"
    and hc': "fc_healthCenter fc'' = fc_healthCenter emptyFullComposition"
    by blast
  then have office: "\<exists>fc'. setEventLocation ?off exampleLocations emptyFullComposition = Inr fc'
       \<and> fc_healthCenter fc' = None
       \<and> fc_eventCity fc' = Some ''Town''
       \<and> fc_eventDistrict fc' = Some ''Isamba''
       \<and> fc_eventState fc' = Some ''Sulaka''"
    unfolding m1 m2 oc e by blast
  from h facility o ne office show ?thesis by blast
qed

subsection \<open>Records without an encounter section\<close>

lemma no_encounter_raises:
  assumes "findSection ''Encounter/'' cmp = Inr None"
    and "\<not> (\<exists>e\<in>set (st_encounters st). enc_id e = Some [])"
  shows "setLocationInComposition st cmp fc locations task = Inl TypeError"
proof -
  have "getCollectionDocuments enc_id (st_encounters st) [Some []] = []"
    using assms(2) by (auto simp: getCollectionDocuments_def filter_empty_conv)
  then show ?thesis
    using assms(1)
    by (simp add: setLocationInComposition_def bindE_def foundReference_def orElse_def elem0_def)
qed

lemma no_encounter_no_row:
  assumes "findSection ''Encounter/'' (clinicalSections cmp) = Inr None"
    and "\<not> (\<exists>e\<in>set (st_encounters st). enc_id e = Some [])"
  shows "processComposition st locations ws cmp = ws"
proof -
  have "makeFullComposition st locations task cmp = Inl TypeError" for task
  proof (cases "makeFullComposition st locations task cmp")
    case (Inl e)
    then show ?thesis by (cases e) simp
  next
    case (Inr fc)
    then obtain fc1 fc2 where
      "setLocationInComposition st (clinicalSections cmp) fc1 locations task = Inr fc2"
      unfolding makeFullComposition_def Let_def by (auto dest!: bindE_Inr)
    with no_encounter_raises[OF assms, of fc1 locations task] show ?thesis by simp
  qed
  then show ?thesis
    by (auto simp: processComposition_def tryComposition_def bindE_def split: sum.splits)
qed

text \<open>
  C1, at a concrete record: the birth composition \<open>c3\<close> of the example store has a child
  section and an informant section and no section referencing an encounter, and its task
  is \<open>REGISTERED\<close>. The encounter is looked up under the empty id, no document comes
  back, reading \<open>encounterDoc[0].location\<close> raises, and the record is skipped: no row is
  written, where C1 expects a birth row with empty location columns.
\<close>

theorem C1_no_encounter_no_row:
  "findSection ''Encounter/'' (clinicalSections birthCompositionNoEncounter) = Inr None
   \<and> elem0 (getTaskDocByCompositionId exampleStore
        (''Composition/'' @ String (comp_id birthCompositionNoEncounter)))
       = Inr (taskOf ''Composition/c3'' ''REGISTERED'')
   \<and> businessStatusOf (taskOf ''Composition/c3'' ''REGISTERED'') = Inr (Some ''REGISTERED'')
   \<and> setLocationInComposition exampleStore (clinicalSections birthCompositionNoEncounter)
        emptyFullComposition exampleLocations (taskOf ''Composition/c3'' ''REGISTERED'')
       = Inl TypeError
   \<and> tryComposition exampleStore exampleLocations exampleWriters birthCompositionNoEncounter
       = Inl TypeError
   \<and> processComposition exampleStore exampleLocations exampleWriters
        birthCompositionNoEncounter = exampleWriters"
  by code_simp

subsection \<open>The aggregate\<close>














subsection \<open>The place of death\<close>



subsection \<open>The month windows\<close>


declare windowsFrom.simps [simp del]

lemma days_in_bounds: "28 \<le> daysIn y m \<and> daysIn y m \<le> 31"
  by (simp add: daysIn_def)

lemma windows_done: "\<not> m < t \<Longrightarrow> windowsFrom m t s e = []"
  by (subst windowsFrom.simps) simp

lemma windows_last: "m + 1 = t \<Longrightarrow> windowsFrom m t s e = [(s, e)]"
  by (subst windowsFrom.simps) (simp add: windows_done)

lemma windows_step:
  "m + 1 < t \<Longrightarrow> windowsFrom m t s e =
     (s, addDays s (getDaysInMonth s - getDate s)) #
       windowsFrom (m + 1) t (addDays (addDays s (getDaysInMonth s - getDate s)) 1) e"
  by (subst windowsFrom.simps) (simp add: Let_def)

lemma windows_length: "length (windowsFrom m t s e) = nat (t - m)"
proof (induction m t s e rule: windowsFrom.induct)
  case (1 month totalMonths startDate endDate)
  show ?case
  proof (cases "month < totalMonths")
    case True
    from 1[OF True refl refl refl refl] True show ?thesis
      by (subst windowsFrom.simps) (simp add: Let_def)
  next
    case False
    then show ?thesis by (simp add: windows_done)
  qed
qed

lemma funpow_next_within:
  "dt_day d + int n \<le> getDaysInMonth d \<Longrightarrow> (nextDay ^^ n) d = d\<lparr>dt_day := dt_day d + int n\<rparr>"
proof (induction n)
  case 0
  then show ?case by simp
next
  case (Suc n)
  then have ih: "(nextDay ^^ n) d = d\<lparr>dt_day := dt_day d + int n\<rparr>" by simp
  have "(nextDay ^^ Suc n) d = nextDay ((nextDay ^^ n) d)" by simp
  also have "\<dots> = nextDay (d\<lparr>dt_day := dt_day d + int n\<rparr>)" by (simp only: ih)
  also have "\<dots> = d\<lparr>dt_day := dt_day d + int (Suc n)\<rparr>"
    using Suc.prems by (simp add: nextDay_def getDaysInMonth_def)
  finally show ?case .
qed

lemma add_days_to_month_end:
  "validDate s \<Longrightarrow> addDays s (getDaysInMonth s - getDate s) = lastDayOfMonth s"
  using funpow_next_within[of s "nat (getDaysInMonth s - dt_day s)"]
  by (simp add: addDays_def validDate_def getDate_def lastDayOfMonth_def)

lemma add_one_day: "addDays d 1 = nextDay d"
  by (simp add: addDays_def)

lemma last_day_valid: "validDate s \<Longrightarrow> validDate (lastDayOfMonth s)"
  using days_in_bounds[of "dt_year s" "dt_month s"]
  by (simp add: validDate_def lastDayOfMonth_def getDaysInMonth_def)

lemma next_day_valid: "validDate d \<Longrightarrow> validDate (nextDay d)"
  using days_in_bounds[of "dt_year d" "dt_month d"] days_in_bounds[of "dt_year d" "dt_month d + 1"]
    days_in_bounds[of "dt_year d + 1" 1]
  by (auto simp: validDate_def nextDay_def getDaysInMonth_def)

lemma next_of_last:
  "validDate s \<Longrightarrow>
   monthIndex (nextDay (lastDayOfMonth s)) = monthIndex s + 1 \<and> dt_day (nextDay (lastDayOfMonth s)) = 1"
  by (auto simp: validDate_def nextDay_def lastDayOfMonth_def getDaysInMonth_def monthIndex_def)

lemma same_month:
  "validDate a \<Longrightarrow> validDate b \<Longrightarrow> monthIndex a = monthIndex b \<Longrightarrow>
   dt_year a = dt_year b \<and> dt_month a = dt_month b"
  unfolding validDate_def monthIndex_def by presburger

lemma day_bounds: "validDate d \<Longrightarrow> 1 \<le> dt_day d \<and> dt_day d \<le> 31"
  using days_in_bounds[of "dt_year d" "dt_month d"]
  by (simp add: validDate_def getDaysInMonth_def)

lemma month_index_mono:
  "validDate a \<Longrightarrow> validDate b \<Longrightarrow>
   (monthIndex a < monthIndex b) =
     (dt_year a < dt_year b \<or> (dt_year a = dt_year b \<and> dt_month a < dt_month b))"
  unfolding validDate_def monthIndex_def by presburger

lemma less_key:
  assumes "validDate a" "validDate b"
  shows "dateLess a b = (dateKey a < dateKey b)"
proof -
  note da = day_bounds[OF assms(1)] and db = day_bounds[OF assms(2)]
  have k: "(dateKey a < dateKey b) =
     (monthIndex a < monthIndex b \<or> (monthIndex a = monthIndex b \<and> dt_day a < dt_day b))"
    unfolding dateKey_def using da db by auto
  have eq: "(monthIndex a = monthIndex b) = (dt_year a = dt_year b \<and> dt_month a = dt_month b)"
    using same_month[OF assms] by (auto simp: monthIndex_def)
  show ?thesis
    unfolding k month_index_mono[OF assms] eq dateLess_def by blast
qed

lemma key_inj:
  assumes "validDate a" "validDate b" "dateKey a = dateKey b"
  shows "a = b"
proof -
  note da = day_bounds[OF assms(1)] and db = day_bounds[OF assms(2)]
  have "\<not> monthIndex a < monthIndex b" and "\<not> monthIndex b < monthIndex a"
    using assms(3) da db unfolding dateKey_def by linarith+
  then have m: "monthIndex a = monthIndex b" by simp
  with assms(3) have "dt_day a = dt_day b" by (simp add: dateKey_def)
  with m same_month[OF assms(1,2)] show ?thesis by simp
qed

lemma le_key:
  assumes "validDate a" "validDate b"
  shows "dateLe a b = (dateKey a \<le> dateKey b)"
  unfolding dateLe_def less_key[OF assms]
  using key_inj[OF assms] by (cases "dateKey a = dateKey b") auto


lemma month_end_key:
  "dateKey (lastDayOfMonth s) = monthIndex s * 32 + getDaysInMonth s"
  by (simp add: dateKey_def lastDayOfMonth_def monthIndex_def)

lemma next_month_key:
  assumes "validDate s"
  shows "dateKey (nextDay (lastDayOfMonth s)) = monthIndex s * 32 + 33"
  using next_of_last[OF assms] by (simp add: dateKey_def)

text \<open>No valid date lies strictly between the last day of a month and the first day of
  the next.\<close>

lemma month_gap:
  assumes "validDate s" "validDate x"
  shows "dateKey x \<le> dateKey (lastDayOfMonth s) \<or> dateKey (nextDay (lastDayOfMonth s)) \<le> dateKey x"
proof -
  note dx = day_bounds[OF assms(2)]
  have dim: "28 \<le> getDaysInMonth s"
    using days_in_bounds[of "dt_year s" "dt_month s"] by (simp add: getDaysInMonth_def)
  have kx: "dateKey x = monthIndex x * 32 + dt_day x" by (simp add: dateKey_def)
  consider "monthIndex x < monthIndex s" | "monthIndex x = monthIndex s" | "monthIndex s < monthIndex x"
    by linarith
  then show ?thesis
  proof cases
    case 1
    then show ?thesis
      unfolding month_end_key next_month_key[OF assms(1)] kx using dx dim by arith
  next
    case 2
    from same_month[OF assms(2,1) 2] have "getDaysInMonth x = getDaysInMonth s"
      by (simp add: getDaysInMonth_def)
    with assms(2) have "dt_day x \<le> getDaysInMonth s" by (simp add: validDate_def)
    with 2 show ?thesis
      unfolding month_end_key next_month_key[OF assms(1)] kx by simp
  next
    case 3
    then show ?thesis
      unfolding month_end_key next_month_key[OF assms(1)] kx using dx by arith
  qed
qed

lemma days_of_key:
  assumes "validDate a" "validDate b"
  shows "daysOf (a, b) = {d. validDate d \<and> dateKey a \<le> dateKey d \<and> dateKey d \<le> dateKey b}"
  unfolding daysOf_def using le_key assms by auto

lemma month_end_after_start: "validDate s \<Longrightarrow> dateKey s \<le> dateKey (lastDayOfMonth s)"
  unfolding month_end_key by (simp add: dateKey_def validDate_def)

lemma next_month_after_end:
  "validDate s \<Longrightarrow> dateKey (lastDayOfMonth s) < dateKey (nextDay (lastDayOfMonth s))"
  unfolding month_end_key next_month_key
  using days_in_bounds[of "dt_year s" "dt_month s"] by (simp add: getDaysInMonth_def)

lemma next_month_before:
  assumes "validDate s" "validDate e" "monthIndex s < monthIndex e"
  shows "dateKey (nextDay (lastDayOfMonth s)) \<le> dateKey e"
proof -
  have "dateKey e = monthIndex e * 32 + dt_day e" by (simp add: dateKey_def)
  with assms(3) day_bounds[OF assms(2)] show ?thesis
    unfolding next_month_key[OF assms(1)] by arith
qed

lemma days_of_split:
  assumes s: "validDate s" and e: "validDate e"
    and later: "monthIndex s < monthIndex e"
  shows "daysOf (s, lastDayOfMonth s) \<union> daysOf (nextDay (lastDayOfMonth s), e) = daysOf (s, e)"
proof -
  note l = last_day_valid[OF s]
  note n = next_day_valid[OF l]
  note k1 = next_month_after_end[OF s]
  note k2 = next_month_before[OF s e later]
  note k3 = month_end_after_start[OF s]
  show ?thesis
    unfolding days_of_key[OF s l] days_of_key[OF n e] days_of_key[OF s e]
    using k1 k2 k3 month_gap[OF s] by (auto; linarith)
qed


lemma windows_props:
  assumes "validDate s" "validDate e" "dateLe s e"
    and "monthIndex e - monthIndex s = t - m - 1"
  shows "windowsFrom m t s e \<noteq> []
     \<and> fst (hd (windowsFrom m t s e)) = s
     \<and> snd (last (windowsFrom m t s e)) = e
     \<and> contiguous (windowsFrom m t s e)
     \<and> list_all (\<lambda>w. validDate (fst w) \<and> validDate (snd w) \<and> dateLe (fst w) (snd w))
          (windowsFrom m t s e)
     \<and> sorted_wrt (\<lambda>w1 w2. dateLess (snd w1) (fst w2)) (windowsFrom m t s e)
     \<and> \<Union> (daysOf ` set (windowsFrom m t s e)) = daysOf (s, e)"
  using assms
proof (induction "nat (t - m - 1)" arbitrary: m s)
  case 0
  from "0.prems"(1,2,3) have "monthIndex s \<le> monthIndex e"
    unfolding le_key[OF "0.prems"(1,2)] dateKey_def
    using day_bounds[OF "0.prems"(1)] day_bounds[OF "0.prems"(2)] by linarith
  with 0 have "m + 1 = t" by linarith
  from windows_last[OF this] "0.prems" show ?case by simp
next
  case (Suc n)
  let ?l = "lastDayOfMonth s"
  let ?s' = "nextDay ?l"
  let ?ws' = "windowsFrom (m + 1) t ?s' e"
  from Suc.hyps(2) have more: "m + 1 < t" by linarith
  with Suc.prems(4) have later: "monthIndex s < monthIndex e" by linarith
  note s = Suc.prems(1) and e = Suc.prems(2)
  note l = last_day_valid[OF s]
  note s' = next_day_valid[OF l]
  have ws: "windowsFrom m t s e = (s, ?l) # ?ws'"
    using windows_step[OF more, of s e] by (simp add: add_days_to_month_end[OF s] add_one_day)
  have le': "dateLe ?s' e"
    unfolding le_key[OF s' e] by (rule next_month_before[OF s e later])
  have idx: "monthIndex e - monthIndex ?s' = t - (m + 1) - 1"
    using next_of_last[OF s] Suc.prems(4) by linarith
  have n: "n = nat (t - (m + 1) - 1)" using Suc.hyps(2) by linarith
  from Suc.hyps(1)[OF n s' e le' idx]
  have ne: "?ws' \<noteq> []" and hd': "fst (hd ?ws') = ?s'" and last': "snd (last ?ws') = e"
    and cont': "contiguous ?ws'"
    and all': "list_all (\<lambda>w. validDate (fst w) \<and> validDate (snd w) \<and> dateLe (fst w) (snd w)) ?ws'"
    and sorted': "sorted_wrt (\<lambda>w1 w2. dateLess (snd w1) (fst w2)) ?ws'"
    and union': "\<Union> (daysOf ` set ?ws') = daysOf (?s', e)"
    by simp_all
  from ne obtain w2 rest where w2: "?ws' = w2 # rest" by (cases ?ws') auto
  have c: "contiguous ((s, ?l) # ?ws')"
    using cont' hd' unfolding w2 by (simp add: add_one_day)
  have first: "dateLe s ?l"
    unfolding le_key[OF s l] by (rule month_end_after_start[OF s])
  have after: "dateLess ?l (fst w)" if w: "w \<in> set ?ws'" for w
  proof -
    from all' w have vw: "validDate (fst w)" "validDate (snd w)" "dateLe (fst w) (snd w)"
      by (auto simp: list_all_iff)
    then have "fst w \<in> daysOf w"
      by (simp add: daysOf_def dateLe_def)
    with w union' have "fst w \<in> daysOf (?s', e)" by blast
    then have "dateKey ?s' \<le> dateKey (fst w)"
      unfolding days_of_key[OF s' e] by simp
    with next_month_after_end[OF s] show ?thesis
      unfolding less_key[OF l vw(1)] by linarith
  qed
  have u: "\<Union> (daysOf ` set ((s, ?l) # ?ws')) = daysOf (s, e)"
    using union' days_of_split[OF s e later] by simp
  show ?case
    unfolding ws using c first after u ne last' all' sorted' s l
    by simp
qed


lemma windows_disjoint:
  assumes all: "list_all (\<lambda>w. validDate (fst w) \<and> validDate (snd w) \<and> dateLe (fst w) (snd w)) ws"
    and sorted: "sorted_wrt (\<lambda>w1 w2. dateLess (snd w1) (fst w2)) ws"
    and ij: "i < j" "j < length ws"
  shows "daysOf (ws ! i) \<inter> daysOf (ws ! j) = {}"
proof -
  from all ij have vi: "validDate (snd (ws ! i))" and vj: "validDate (fst (ws ! j))"
    by (auto simp: list_all_length)
  from sorted ij have "dateLess (snd (ws ! i)) (fst (ws ! j))"
    by (simp add: sorted_wrt_iff_nth_less)
  then have k: "dateKey (snd (ws ! i)) < dateKey (fst (ws ! j))"
    unfolding less_key[OF vi vj] .
  have False if x: "x \<in> daysOf (ws ! i)" "x \<in> daysOf (ws ! j)" for x
  proof -
    from x have vx: "validDate x" and a: "dateLe x (snd (ws ! i))" and b: "dateLe (fst (ws ! j)) x"
      by (simp_all add: daysOf_def)
    from a b k show False
      unfolding le_key[OF vx vi] le_key[OF vj vx] by linarith
  qed
  then show ?thesis by blast
qed

lemma prev_day_valid: "validDate d \<Longrightarrow> validDate (prevDay d)"
  by (auto simp: validDate_def prevDay_def getDaysInMonth_def daysIn_def)

lemma prev_day_less: "dateLess (prevDay d) d"
  by (auto simp: dateLess_def prevDay_def)

lemma prev_day_key:
  assumes "validDate d"
  shows "dateKey (prevDay d) < dateKey d
     \<and> (\<forall>x. validDate x \<longrightarrow> dateKey x < dateKey d \<longrightarrow> dateKey x \<le> dateKey (prevDay d))"
proof (cases "1 < dt_day d")
  case True
  then have "dateKey (prevDay d) = dateKey d - 1"
    by (simp add: prevDay_def dateKey_def monthIndex_def)
  then show ?thesis by simp
next
  case False
  with assms have one: "dt_day d = 1" by (simp add: validDate_def)
  have v: "validDate (prevDay d)" by (rule prev_day_valid[OF assms])
  have l: "lastDayOfMonth (prevDay d) = prevDay d"
    using one by (simp add: prevDay_def lastDayOfMonth_def getDaysInMonth_def daysIn_def)
  have n: "nextDay (prevDay d) = d"
    using assms one
    by (auto simp: validDate_def prevDay_def nextDay_def getDaysInMonth_def daysIn_def)
  have "dateKey (prevDay d) < dateKey d"
    using next_month_after_end[OF v] unfolding l n .
  moreover have "dateKey x \<le> dateKey (prevDay d)" if "validDate x" "dateKey x < dateKey d" for x
    using month_gap[OF v that(1)] that(2) unfolding l n by simp
  ultimately show ?thesis by blast
qed

lemma prev_day_mono:
  assumes "validDate s" and "validDate e" and "dateLe s e"
  shows "dateLe (prevDay s) (prevDay e)"
proof -
  have k: "dateKey s \<le> dateKey e" using assms(3) le_key[OF assms(1,2)] by simp
  have vs: "validDate (prevDay s)" by (rule prev_day_valid[OF assms(1)])
  have ve: "validDate (prevDay e)" by (rule prev_day_valid[OF assms(2)])
  have "dateKey (prevDay s) < dateKey e" using prev_day_key[OF assms(1)] k by simp
  then have "dateKey (prevDay s) \<le> dateKey (prevDay e)"
    using prev_day_key[OF assms(2)] vs by blast
  then show ?thesis using le_key[OF vs ve] by simp
qed

text \<open>
  In a zone at or east of UTC the loop does what is expected of it: for valid dates with
  the start not after the end it makes \<open>differenceInCalendarMonths end start + 1\<close>
  windows; the first starts at the start date and the last ends at the end date; every
  window but the last ends on the last day of the month it starts in, and the next
  window starts the day after; every window is a non-empty range of valid dates; every
  window ends before every later window starts, so no two windows share a day; and the
  days covered by the windows are exactly the days from the start date to the end date.
\<close>

lemma month_windows_utc_or_east:
  assumes "0 \<le> zone startDate" and "0 \<le> zone endDate"
    and "validDate startDate" and "validDate endDate" and "dateLe startDate endDate"
  shows "int (length (startScriptWindows zone startDate endDate))
           = differenceInCalendarMonths endDate startDate + 1
     \<and> startScriptWindows zone startDate endDate \<noteq> []
     \<and> fst (hd (startScriptWindows zone startDate endDate)) = startDate
     \<and> snd (last (startScriptWindows zone startDate endDate)) = endDate
     \<and> contiguous (startScriptWindows zone startDate endDate)
     \<and> list_all (\<lambda>w. validDate (fst w) \<and> validDate (snd w) \<and> dateLe (fst w) (snd w))
          (startScriptWindows zone startDate endDate)
     \<and> sorted_wrt (\<lambda>w1 w2. dateLess (snd w1) (fst w2))
          (startScriptWindows zone startDate endDate)
     \<and> (\<forall>i j. i < j \<longrightarrow> j < length (startScriptWindows zone startDate endDate) \<longrightarrow>
            daysOf (startScriptWindows zone startDate endDate ! i)
              \<inter> daysOf (startScriptWindows zone startDate endDate ! j) = {})
     \<and> \<Union> (daysOf ` set (startScriptWindows zone startDate endDate))
         = daysOf (startDate, endDate)"
proof -
  let ?t = "differenceInCalendarMonths endDate startDate + 1"
  have ws: "startScriptWindows zone startDate endDate = windowsFrom 0 ?t startDate endDate"
    using assms(1,2) by (simp add: startScriptWindows_def newDate_def Let_def)
  have diff: "differenceInCalendarMonths endDate startDate = monthIndex endDate - monthIndex startDate"
    by (simp add: differenceInCalendarMonths_def monthIndex_def)
  have "monthIndex startDate \<le> monthIndex endDate"
    using assms(5) unfolding le_key[OF assms(3,4)] dateKey_def
    using day_bounds[OF assms(3)] day_bounds[OF assms(4)] by linarith
  then have pos: "0 \<le> differenceInCalendarMonths endDate startDate" unfolding diff by simp
  have idx: "monthIndex endDate - monthIndex startDate = ?t - 0 - 1" unfolding diff by simp
  note p = windows_props[OF assms(3,4,5) idx, folded ws]
  have len: "int (length (startScriptWindows zone startDate endDate)) = ?t"
    using pos by (simp add: ws windows_length)
  from p have all: "list_all (\<lambda>w. validDate (fst w) \<and> validDate (snd w) \<and> dateLe (fst w) (snd w))
          (startScriptWindows zone startDate endDate)"
    and sorted: "sorted_wrt (\<lambda>w1 w2. dateLess (snd w1) (fst w2))
          (startScriptWindows zone startDate endDate)"
    by simp_all
  have dis: "\<forall>i j. i < j \<longrightarrow> j < length (startScriptWindows zone startDate endDate) \<longrightarrow>
            daysOf (startScriptWindows zone startDate endDate ! i)
              \<inter> daysOf (startScriptWindows zone startDate endDate ! j) = {}"
    using windows_disjoint[OF all sorted] by blast
  from p len dis show ?thesis by simp
qed

text \<open>
  In a zone west of UTC the loop runs on the days before the two named days: for all
  valid dates with the start not after the end, the first window starts the day before
  the start date, the last window ends the day before the end date, and the windows
  cover the days from the one to the other, so that the end date lies in no window.
\<close>

lemma month_windows_west_of_utc:
  assumes "zone startDate < 0" and "zone endDate < 0"
    and "validDate startDate" and "validDate endDate" and "dateLe startDate endDate"
  shows "startScriptWindows zone startDate endDate \<noteq> []
     \<and> fst (hd (startScriptWindows zone startDate endDate)) = prevDay startDate
     \<and> snd (last (startScriptWindows zone startDate endDate)) = prevDay endDate
     \<and> prevDay startDate \<noteq> startDate \<and> prevDay endDate \<noteq> endDate
     \<and> \<Union> (daysOf ` set (startScriptWindows zone startDate endDate))
         = daysOf (prevDay startDate, prevDay endDate)
     \<and> endDate \<in> daysOf (startDate, endDate)
     \<and> endDate \<notin> \<Union> (daysOf ` set (startScriptWindows zone startDate endDate))"
proof -
  let ?s = "prevDay startDate" and ?e = "prevDay endDate"
  let ?t = "differenceInCalendarMonths ?e ?s + 1"
  have ws: "startScriptWindows zone startDate endDate = windowsFrom 0 ?t ?s ?e"
    using assms(1,2) by (simp add: startScriptWindows_def newDate_def Let_def)
  have vs: "validDate ?s" by (rule prev_day_valid[OF assms(3)])
  have ve: "validDate ?e" by (rule prev_day_valid[OF assms(4)])
  have le: "dateLe ?s ?e" by (rule prev_day_mono[OF assms(3,4,5)])
  have diff: "differenceInCalendarMonths ?e ?s = monthIndex ?e - monthIndex ?s"
    by (simp add: differenceInCalendarMonths_def monthIndex_def)
  have idx: "monthIndex ?e - monthIndex ?s = ?t - 0 - 1" unfolding diff by simp
  note p = windows_props[OF vs ve le idx, folded ws]
  have n1: "?s \<noteq> startDate" using prev_day_less[of startDate] by (auto simp: dateLess_def)
  have n2: "?e \<noteq> endDate" using prev_day_less[of endDate] by (auto simp: dateLess_def)
  have in1: "endDate \<in> daysOf (startDate, endDate)"
    using assms(4,5) by (simp add: daysOf_def dateLe_def)
  have "\<not> dateLe endDate ?e"
    using prev_day_key[OF assms(4)] le_key[OF assms(4) ve] by simp
  then have out: "endDate \<notin> daysOf (?s, ?e)" by (simp add: daysOf_def)
  from p n1 n2 in1 out show ?thesis by simp
qed

text \<open>
  C4, at a concrete run: the arguments \<open>2022-01-01\<close> and \<open>2022-03-15\<close> in a process
  whose zone is five hours west of UTC. The two strings are parsed as midnight UTC and
  read as 31 December 2021 and 14 March 2022, so the loop makes four windows, from
  31 December 2021 to 14 March 2022, where C4 expects the three windows of the calendar
  months from 1 January to 15 March: the count, the first day, the last day and the days
  covered all differ (15 March is covered by no window, 31 December by the first).
\<close>

theorem C4_west_of_utc_windows:
  "startScriptWindows utcMinus5 (mkDate 2022 1 1) (mkDate 2022 3 15)
     = [(mkDate 2021 12 31, mkDate 2021 12 31), (mkDate 2022 1 1, mkDate 2022 1 31),
        (mkDate 2022 2 1, mkDate 2022 2 28), (mkDate 2022 3 1, mkDate 2022 3 14)]
   \<and> validDate (mkDate 2022 1 1) \<and> validDate (mkDate 2022 3 15)
   \<and> dateLe (mkDate 2022 1 1) (mkDate 2022 3 15)
   \<and> differenceInCalendarMonths (mkDate 2022 3 15) (mkDate 2022 1 1) + 1 = 3
   \<and> length (startScriptWindows utcMinus5 (mkDate 2022 1 1) (mkDate 2022 3 15)) = 4
   \<and> fst (hd (startScriptWindows utcMinus5 (mkDate 2022 1 1) (mkDate 2022 3 15)))
       \<noteq> mkDate 2022 1 1
   \<and> snd (last (startScriptWindows utcMinus5 (mkDate 2022 1 1) (mkDate 2022 3 15)))
       \<noteq> mkDate 2022 3 15
   \<and> mkDate 2022 3 15 \<in> daysOf (mkDate 2022 1 1, mkDate 2022 3 15)
   \<and> mkDate 2022 3 15
       \<notin> \<Union> (daysOf ` set (startScriptWindows utcMinus5 (mkDate 2022 1 1) (mkDate 2022 3 15)))
   \<and> mkDate 2021 12 31 \<notin> daysOf (mkDate 2022 1 1, mkDate 2022 3 15)
   \<and> mkDate 2021 12 31
       \<in> \<Union> (daysOf ` set (startScriptWindows utcMinus5 (mkDate 2022 1 1) (mkDate 2022 3 15)))"
proof -
  let ?e = "mkDate 2022 3 14"
  have s: "newDate utcMinus5 (mkDate 2022 1 1) = mkDate 2021 12 31" by code_simp
  have e: "newDate utcMinus5 (mkDate 2022 3 15) = ?e" by code_simp
  have t: "differenceInCalendarMonths ?e (mkDate 2021 12 31) + 1 = 4" by code_simp
  have v0: "validDate (mkDate 2021 12 31)" by code_simp
  have v1: "validDate (mkDate 2022 1 1)" by code_simp
  have v2: "validDate (mkDate 2022 2 1)" by code_simp
  have e0: "lastDayOfMonth (mkDate 2021 12 31) = mkDate 2021 12 31" by code_simp
  have n0: "nextDay (mkDate 2021 12 31) = mkDate 2022 1 1" by code_simp
  have e1: "lastDayOfMonth (mkDate 2022 1 1) = mkDate 2022 1 31" by code_simp
  have n1: "nextDay (mkDate 2022 1 31) = mkDate 2022 2 1" by code_simp
  have e2: "lastDayOfMonth (mkDate 2022 2 1) = mkDate 2022 2 28" by code_simp
  have n2: "nextDay (mkDate 2022 2 28) = mkDate 2022 3 1" by code_simp
  have w3: "windowsFrom 3 4 (mkDate 2022 3 1) ?e = [(mkDate 2022 3 1, ?e)]"
    by (rule windows_last) simp
  have w2: "windowsFrom 2 4 (mkDate 2022 2 1) ?e
        = (mkDate 2022 2 1, mkDate 2022 2 28) # windowsFrom 3 4 (mkDate 2022 3 1) ?e"
    using windows_step[of 2 4 "mkDate 2022 2 1" ?e]
    unfolding add_days_to_month_end[OF v2] add_one_day e2 n2 by simp
  have w1: "windowsFrom 1 4 (mkDate 2022 1 1) ?e
        = (mkDate 2022 1 1, mkDate 2022 1 31) # windowsFrom 2 4 (mkDate 2022 2 1) ?e"
    using windows_step[of 1 4 "mkDate 2022 1 1" ?e]
    unfolding add_days_to_month_end[OF v1] add_one_day e1 n1 by simp
  have w0: "windowsFrom 0 4 (mkDate 2021 12 31) ?e
        = (mkDate 2021 12 31, mkDate 2021 12 31) # windowsFrom 1 4 (mkDate 2022 1 1) ?e"
    using windows_step[of 0 4 "mkDate 2021 12 31" ?e]
    unfolding add_days_to_month_end[OF v0] add_one_day e0 n0 by simp
  have ws: "startScriptWindows utcMinus5 (mkDate 2022 1 1) (mkDate 2022 3 15)
     = [(mkDate 2021 12 31, mkDate 2021 12 31), (mkDate 2022 1 1, mkDate 2022 1 31),
        (mkDate 2022 2 1, mkDate 2022 2 28), (mkDate 2022 3 1, mkDate 2022 3 14)]"
    unfolding startScriptWindows_def Let_def s e t w0 w1 w2 w3 by (rule refl)
  have v3: "validDate (mkDate 2022 3 15)" by code_simp
  have le: "dateLe (mkDate 2022 1 1) (mkDate 2022 3 15)" by code_simp
  have d: "differenceInCalendarMonths (mkDate 2022 3 15) (mkDate 2022 1 1) + 1 = 3"
    by code_simp
  have ne1: "mkDate 2021 12 31 \<noteq> mkDate 2022 1 1" by code_simp
  have ne2: "mkDate 2022 3 14 \<noteq> mkDate 2022 3 15" by code_simp
  have in1: "mkDate 2022 3 15 \<in> daysOf (mkDate 2022 1 1, mkDate 2022 3 15)"
    using v3 le by (simp add: daysOf_def dateLe_def)
  have out1: "mkDate 2022 3 15 \<notin> daysOf w"
    if "w \<in> set [(mkDate 2021 12 31, mkDate 2021 12 31), (mkDate 2022 1 1, mkDate 2022 1 31),
        (mkDate 2022 2 1, mkDate 2022 2 28), (mkDate 2022 3 1, mkDate 2022 3 14)]" for w
    using that by (auto simp: daysOf_def dateLe_def dateLess_def mkDate_def)
  have out2: "mkDate 2021 12 31 \<notin> daysOf (mkDate 2022 1 1, mkDate 2022 3 15)"
    by (simp add: daysOf_def dateLe_def dateLess_def mkDate_def)
  have in2: "mkDate 2021 12 31 \<in> daysOf (mkDate 2021 12 31, mkDate 2021 12 31)"
    using v0 by (simp add: daysOf_def dateLe_def)
  show ?thesis
    unfolding ws using v1 v3 le d ne1 ne2 in1 out1 out2 in2 by auto
qed

end
